theory Spec2Isabelle
  imports Complex_Main "HOL-Library.Sublist"
begin

section \<open>Values shared by the scraper and the scheduler\<close>

text \<open>
  A JavaScript number is modelled as an exact rational, an infinity or \<open>NaN\<close>; the
  rounding of IEEE doubles is outside the model. Comparisons follow JavaScript: every
  comparison with \<open>NaN\<close> is false.
\<close>

datatype jsnum = NaN | NegInf | Fin rat | PosInf

fun js_lt :: "jsnum \<Rightarrow> jsnum \<Rightarrow> bool" where
  "js_lt (Fin a) (Fin b) = (a < b)"
| "js_lt NegInf (Fin b) = True"
| "js_lt NegInf PosInf = True"
| "js_lt (Fin a) PosInf = True"
| "js_lt _ _ = False"

definition js_gt :: "jsnum \<Rightarrow> jsnum \<Rightarrow> bool" where
  "js_gt a b = js_lt b a"

definition js_le :: "jsnum \<Rightarrow> jsnum \<Rightarrow> bool" where
  "js_le a b = (a \<noteq> NaN \<and> b \<noteq> NaN \<and> (js_lt a b \<or> a = b))"

text \<open>\<open>!x\<close> for a number \<open>x\<close>: zero and \<open>NaN\<close> are falsy.\<close>

definition num_falsy :: "jsnum \<Rightarrow> bool" where
  "num_falsy x = (x = NaN \<or> x = Fin 0)"

text \<open>A parsed JSON document; an object lists its members in enumeration order.\<close>

datatype json =
    JNull
  | JBool bool
  | JNumber rat
  | JString string
  | JArray "json list"
  | JObject "(string \<times> json) list"

datatype error =
    InvalidURL
  | FetchError
  | TypeError
  | ReferenceError
  | ProductNotFound
  | DeliveryError

text \<open>
  \<open>ScrapeResult\<close> of \<open>scraper.ts\<close>. The currency is whatever value the page supplied
  (a string on well-formed pages). Product name and image do not influence price,
  currency or availability and are left out.
\<close>

record ScrapeResult =
  price :: "jsnum option"
  currency :: json
  isAvailable :: bool
  error :: "string option"

section \<open>\<open>PriceScraper\<close> (\<open>services/scraper.ts\<close>)\<close>

subsection \<open>Strings\<close>

text \<open>
  Strings are lists of 8-bit characters. \<open>\d\<close> is an ASCII digit; \<open>\s\<close>, \<open>trim\<close>
  and the white space \<open>parseFloat\<close> skips are the ASCII white-space characters;
  \<open>toLowerCase\<close> maps the ASCII capitals. Text outside ASCII is outside the model.
\<close>

definition isDigit :: "char \<Rightarrow> bool" where
  "isDigit c = (c \<in> set ''0123456789'')"

definition isSpace :: "char \<Rightarrow> bool" where
  "isSpace c = (c \<in> set [CHR '' '', CHR 0x09, CHR 0x0A, CHR 0x0B, CHR 0x0C, CHR 0x0D])"

definition digitValue :: "char \<Rightarrow> nat" where
  "digitValue c = of_char c - 48"

definition digitsValue :: "string \<Rightarrow> nat" where
  "digitsValue ds = foldl (\<lambda>a c. 10 * a + digitValue c) 0 ds"

definition toLowerChar :: "char \<Rightarrow> char" where
  "toLowerChar c =
     (case map_of (zip ''ABCDEFGHIJKLMNOPQRSTUVWXYZ'' ''abcdefghijklmnopqrstuvwxyz'') c of
        Some l \<Rightarrow> l
      | None \<Rightarrow> c)"

definition toLowerCase :: "string \<Rightarrow> string" where
  "toLowerCase s = map toLowerChar s"

text \<open>\<open>haystack.includes(needle)\<close>.\<close>

fun js_includes :: "string \<Rightarrow> string \<Rightarrow> bool" where
  "js_includes [] needle = (needle = [])"
| "js_includes (c # cs) needle = (prefix needle (c # cs) \<or> js_includes cs needle)"

definition trim :: "string \<Rightarrow> string" where
  "trim s = rev (dropWhile isSpace (rev (dropWhile isSpace s)))"

subsection \<open>\<open>parseFloat\<close>\<close>

text \<open>
  The built-in \<open>parseFloat\<close>: leading white space is skipped, then the longest prefix
  that is a decimal literal (sign, digits, fraction, exponent) or \<open>Infinity\<close> is read;
  \<open>NaN\<close> when there is none.
\<close>

definition pow10 :: "int \<Rightarrow> rat" where
  "pow10 e = (if 0 \<le> e then 10 ^ nat e else 1 / 10 ^ nat (- e))"

definition exponentOf :: "string \<Rightarrow> int" where
  "exponentOf rest =
     (case rest of
        [] \<Rightarrow> 0
      | e # r \<Rightarrow>
          if e = CHR ''e'' \<or> e = CHR ''E'' then
            (case r of
               [] \<Rightarrow> 0
             | sign # ds \<Rightarrow>
                 if sign = CHR ''-'' then
                   (if takeWhile isDigit ds = [] then 0
                    else - int (digitsValue (takeWhile isDigit ds)))
                 else if sign = CHR ''+'' then
                   (if takeWhile isDigit ds = [] then 0
                    else int (digitsValue (takeWhile isDigit ds)))
                 else
                   (if takeWhile isDigit r = [] then 0
                    else int (digitsValue (takeWhile isDigit r))))
          else 0)"

definition unsignedLiteral :: "string \<Rightarrow> jsnum" where
  "unsignedLiteral s =
     (if prefix ''Infinity'' s then PosInf
      else
        let whole = takeWhile isDigit s;
            afterWhole = dropWhile isDigit s;
            hasDot = (afterWhole \<noteq> [] \<and> hd afterWhole = CHR ''.'');
            fraction = (if hasDot then takeWhile isDigit (tl afterWhole) else []);
            afterFraction = (if hasDot then dropWhile isDigit (tl afterWhole) else afterWhole)
        in
          if whole = [] \<and> fraction = [] then NaN
          else Fin ((of_nat (digitsValue whole)
                      + of_nat (digitsValue fraction) / 10 ^ length fraction)
                    * pow10 (exponentOf afterFraction)))"

definition negate :: "jsnum \<Rightarrow> jsnum" where
  "negate x =
     (case x of NaN \<Rightarrow> NaN | NegInf \<Rightarrow> PosInf | PosInf \<Rightarrow> NegInf | Fin r \<Rightarrow> Fin (- r))"

definition parseFloat :: "string \<Rightarrow> jsnum" where
  "parseFloat input =
     (case dropWhile isSpace input of
        [] \<Rightarrow> NaN
      | c # rest \<Rightarrow>
          if c = CHR ''-'' then negate (unsignedLiteral rest)
          else if c = CHR ''+'' then unsignedLiteral rest
          else unsignedLiteral (c # rest))"

subsection \<open>The price patterns\<close>

text \<open>
  Each of the four regular expressions is a function that gives the match starting at
  the head of its argument, if there is one. In all four the greedy reading is the only
  one that can succeed, so no backtracking is modelled. \<open>numberBody\<close> is
  \<^verbatim>\<open>[\d,]+\.?\d*\<close>.
\<close>

definition isNumChar :: "char \<Rightarrow> bool" where
  "isNumChar c = (isDigit c \<or> c = CHR '','')"

definition numberBody :: "string \<Rightarrow> string option" where
  "numberBody s =
     (let run = takeWhile isNumChar s; rest = dropWhile isNumChar s in
        if run = [] then None
        else
          (case rest of
             [] \<Rightarrow> Some run
           | c # after \<Rightarrow>
               if c = CHR ''.'' then Some (run @ [c] @ takeWhile isDigit after)
               else Some run))"

text \<open>\<^verbatim>\<open>/\$[\d,]+\.?\d*/g\<close>\<close>

definition dollarPrefixed :: "string \<Rightarrow> string option" where
  "dollarPrefixed s =
     (case s of
        [] \<Rightarrow> None
      | c # rest \<Rightarrow>
          if c = CHR ''$'' then map_option ((#) c) (numberBody rest) else None)"

text \<open>\<^verbatim>\<open>/[\d,]+\.?\d*\s*\$/g\<close>\<close>

definition dollarSuffixed :: "string \<Rightarrow> string option" where
  "dollarSuffixed s =
     (case numberBody s of
        None \<Rightarrow> None
      | Some body \<Rightarrow>
          (let after = drop (length body) s;
               spaces = takeWhile isSpace after
           in case dropWhile isSpace after of
                [] \<Rightarrow> None
              | c # rest \<Rightarrow> if c = CHR ''$'' then Some (body @ spaces @ [c]) else None))"

text \<open>\<^verbatim>\<open>/AUD?\s*[\d,]+\.?\d*/gi\<close>\<close>

definition currencyPrefixed :: "string \<Rightarrow> string option" where
  "currencyPrefixed s =
     (case s of
        a # u # rest \<Rightarrow>
          if toLowerChar a = CHR ''a'' \<and> toLowerChar u = CHR ''u'' then
            (let d = (if rest \<noteq> [] \<and> toLowerChar (hd rest) = CHR ''d'' then [hd rest] else []);
                 afterD = drop (length d) rest;
                 spaces = takeWhile isSpace afterD
             in map_option (\<lambda>body. a # u # d @ spaces @ body)
                  (numberBody (dropWhile isSpace afterD)))
          else None
      | _ \<Rightarrow> None)"

text \<open>\<^verbatim>\<open>/[\d,]+\.?\d*/g\<close>\<close>

definition bareNumber :: "string \<Rightarrow> string option" where
  "bareNumber s = numberBody s"

text \<open>
  \<open>text.match(pattern)\<close> with the \<open>g\<close> flag: all matches, left to right, the search
  resuming after each match (one character further after an empty one).
\<close>

function allMatches :: "(string \<Rightarrow> string option) \<Rightarrow> string \<Rightarrow> string list" where
  "allMatches pattern s =
     (case pattern s of
        Some m \<Rightarrow>
          m # (if s = [] then [] else allMatches pattern (drop (max 1 (length m)) s))
      | None \<Rightarrow> (case s of [] \<Rightarrow> [] | c # rest \<Rightarrow> allMatches pattern rest))"
  by pat_completeness auto
termination
  by (relation "measure (\<lambda>(pattern, s). length s)") auto

declare allMatches.simps [simp del]

definition pricePatterns :: "(string \<Rightarrow> string option) list" where
  "pricePatterns = [dollarPrefixed, dollarSuffixed, currencyPrefixed, bareNumber]"

text \<open>
  The value of one match: \<^verbatim>\<open>parseFloat(match.replace(/[^\d.,]/g, '').replace(/,/g, ''))\<close>.
\<close>

definition candidateValue :: "string \<Rightarrow> jsnum" where
  "candidateValue m =
     parseFloat (filter (\<lambda>c. c \<noteq> CHR '','')
       (filter (\<lambda>c. isDigit c \<or> c = CHR ''.'' \<or> c = CHR '','') m))"

definition validPrice :: "jsnum \<Rightarrow> bool" where
  "validPrice n = (n \<noteq> NaN \<and> js_gt n (Fin 0) \<and> js_lt n (Fin 1000000))"

text \<open>The three nested loops of the selector strategy, each left at the first valid price.\<close>

fun scanMatches :: "string list \<Rightarrow> jsnum option" where
  "scanMatches [] = None"
| "scanMatches (m # ms) =
     (if validPrice (candidateValue m) then Some (candidateValue m) else scanMatches ms)"

fun scanPatterns :: "(string \<Rightarrow> string option) list \<Rightarrow> string \<Rightarrow> jsnum option" where
  "scanPatterns [] text = None"
| "scanPatterns (pattern # patterns) text =
     (case scanMatches (allMatches pattern text) of
        Some n \<Rightarrow> Some n
      | None \<Rightarrow> scanPatterns patterns text)"

fun scanElements :: "string list \<Rightarrow> jsnum option" where
  "scanElements [] = None"
| "scanElements (element # elements) =
     (case scanPatterns pricePatterns (trim element) of
        Some n \<Rightarrow> Some n
      | None \<Rightarrow> scanElements elements)"

text \<open>
  The candidates of the selector strategy as the specification lists them: element by
  element; for each element the matches of the \<open>$\<close>-prefixed pattern, then those of
  the \<open>$\<close>-suffixed pattern, then those of the currency-code-prefixed pattern, then
  those of the bare-number pattern; for each pattern match by match. The order is written
  out here and does not go through \<open>pricePatterns\<close>. \<open>firstValid\<close> is the value
  of the first candidate that is a valid price.
\<close>

definition spec_candidates :: "string list \<Rightarrow> string list" where
  "spec_candidates texts =
     concat (map (\<lambda>element.
                    allMatches dollarPrefixed (trim element) @
                    allMatches dollarSuffixed (trim element) @
                    allMatches currencyPrefixed (trim element) @
                    allMatches bareNumber (trim element)) texts)"

definition firstValid :: "string list \<Rightarrow> jsnum option" where
  "firstValid ms = List.find validPrice (map candidateValue ms)"

subsection \<open>JSON values as JavaScript sees them\<close>

definition js_truthy :: "json \<Rightarrow> bool" where
  "js_truthy v =
     (case v of
        JNull \<Rightarrow> False
      | JBool b \<Rightarrow> b
      | JNumber r \<Rightarrow> r \<noteq> 0
      | JString s \<Rightarrow> s \<noteq> []
      | JArray xs \<Rightarrow> True
      | JObject ms \<Rightarrow> True)"

text \<open>
  \<open>v.k\<close> for a value \<open>v\<close> other than \<open>null\<close>: \<open>None\<close> is \<open>undefined\<close>. None of the
  keys read by the scraper is a property of an array, a string, a number or a boolean.
\<close>

definition getProp :: "json \<Rightarrow> string \<Rightarrow> json option" where
  "getProp v k = (case v of JObject members \<Rightarrow> map_of members k | _ \<Rightarrow> None)"

definition truthy :: "json option \<Rightarrow> bool" where
  "truthy v = (case v of None \<Rightarrow> False | Some x \<Rightarrow> js_truthy x)"

text \<open>\<open>a || b\<close>\<close>

definition orElse :: "json option \<Rightarrow> json option \<Rightarrow> json option" where
  "orElse a b = (if truthy a then a else b)"

text \<open>\<open>typeof v === 'object' && v !== null\<close>\<close>

definition isObject :: "json \<Rightarrow> bool" where
  "isObject v = (case v of JArray xs \<Rightarrow> True | JObject ms \<Rightarrow> True | _ \<Rightarrow> False)"

text \<open>
  \<open>parseFloat(v)\<close> for a JSON value: the value is first turned into a string. A number
  reads back as itself. An array's string joins its elements with commas, so only its
  first element can be read. The strings of \<open>true\<close>, \<open>null\<close> and of an object do not
  start with a number.
\<close>

fun parseFloatJson :: "json \<Rightarrow> jsnum" where
  "parseFloatJson (JNumber r) = Fin r"
| "parseFloatJson (JString s) = parseFloat s"
| "parseFloatJson (JArray (x # xs)) = parseFloatJson x"
| "parseFloatJson v = NaN"

subsection \<open>\<open>findProductInJsonLd\<close>\<close>

definition isProductType :: "json \<Rightarrow> bool" where
  "isProductType jsonData =
     (case getProp jsonData ''@type'' of
        Some (JString t) \<Rightarrow> t = ''Product''
      | Some (JArray ts) \<Rightarrow> JString ''Product'' \<in> set ts
      | _ \<Rightarrow> False)"

text \<open>The loop over \<open>offerArray\<close>; reading \<open>offer.price\<close> of a \<open>null\<close> offer throws.\<close>

fun firstPricedOffer :: "json list \<Rightarrow> error + json option" where
  "firstPricedOffer [] = Inr None"
| "firstPricedOffer (offer # rest) =
     (if offer = JNull then Inl TypeError
      else if truthy (getProp offer ''price'') \<or> truthy (getProp offer ''lowPrice'')
      then Inr (Some offer)
      else firstPricedOffer rest)"

definition offerArray :: "json \<Rightarrow> json list" where
  "offerArray offers = (case offers of JArray xs \<Rightarrow> xs | _ \<Rightarrow> [offers])"

text \<open>
  The object literals \<open>findProductInJsonLd\<close> returns. A member whose value is
  \<open>undefined\<close> is left out.
\<close>

definition optMember :: "string \<Rightarrow> json option \<Rightarrow> (string \<times> json) list" where
  "optMember k v = (case v of None \<Rightarrow> [] | Some x \<Rightarrow> [(k, x)])"

definition offerSummary :: "json \<Rightarrow> json \<Rightarrow> json" where
  "offerSummary jsonData offer =
     JObject
       (optMember ''price'' (orElse (getProp offer ''price'') (getProp offer ''lowPrice'')) @
        optMember ''currency''
          (orElse (getProp offer ''priceCurrency'') (Some (JString ''AUD''))) @
        optMember ''name'' (getProp jsonData ''name''))"

definition directSummary :: "json \<Rightarrow> json" where
  "directSummary jsonData =
     JObject
       (optMember ''price'' (getProp jsonData ''price'') @
        optMember ''currency''
          (orElse (getProp jsonData ''priceCurrency'') (Some (JString ''AUD''))) @
        optMember ''name'' (getProp jsonData ''name''))"

text \<open>The block guarded by the test of \<open>@type\<close>; \<open>Inr None\<close> when it falls through.\<close>

definition productSummary :: "json \<Rightarrow> error + json option" where
  "productSummary jsonData =
     (if isProductType jsonData then
        (case (case getProp jsonData ''offers'' of
                 None \<Rightarrow> Inr None
               | Some offers \<Rightarrow>
                   if js_truthy offers then firstPricedOffer (offerArray offers)
                   else Inr None) of
           Inl e \<Rightarrow> Inl e
         | Inr (Some offer) \<Rightarrow> Inr (Some (offerSummary jsonData offer))
         | Inr None \<Rightarrow>
             if truthy (getProp jsonData ''price'') then Inr (Some (directSummary jsonData))
             else Inr None)
      else Inr None)"

lemma size_map_of:
  "map_of members k = Some v \<Longrightarrow> size v < Suc (size_list (size_prod (\<lambda>_. 0) size) members)"
  by (induction members) (auto split: if_splits)

text \<open>
  \<open>findInItems\<close> is the loop over an array, \<open>findInMembers\<close> the \<open>for ... in\<close> loop
  over the members of an object.
\<close>

function findProductInJsonLd :: "json \<Rightarrow> error + json option"
  and findInItems :: "json list \<Rightarrow> error + json option"
  and findInMembers :: "(string \<times> json) list \<Rightarrow> error + json option" where
  "findProductInJsonLd jsonData =
     (if \<not> js_truthy jsonData then Inr None
      else
        (case jsonData of
           JArray items \<Rightarrow> findInItems items
         | JObject members \<Rightarrow>
             (case productSummary jsonData of
                Inl e \<Rightarrow> Inl e
              | Inr (Some summary) \<Rightarrow> Inr (Some summary)
              | Inr None \<Rightarrow>
                  (case map_of members ''@graph'' of
                     Some graph \<Rightarrow>
                       if js_truthy graph then findProductInJsonLd graph
                       else findInMembers members
                   | None \<Rightarrow> findInMembers members))
         | _ \<Rightarrow> Inr None))"
| "findInItems [] = Inr None"
| "findInItems (item # rest) =
     (case findProductInJsonLd item of
        Inl e \<Rightarrow> Inl e
      | Inr (Some result) \<Rightarrow> Inr (Some result)
      | Inr None \<Rightarrow> findInItems rest)"
| "findInMembers [] = Inr None"
| "findInMembers ((key, v) # rest) =
     (if isObject v then
        (case findProductInJsonLd v of
           Inl e \<Rightarrow> Inl e
         | Inr (Some result) \<Rightarrow> Inr (Some result)
         | Inr None \<Rightarrow> findInMembers rest)
      else findInMembers rest)"
  by pat_completeness auto
termination
  by (relation "measure (\<lambda>x. case x of
          Inl j \<Rightarrow> size j
        | Inr (Inl items) \<Rightarrow> size_list size items
        | Inr (Inr ms) \<Rightarrow> size_list (size_prod (\<lambda>_. 0) size) ms)")
     (auto dest: size_map_of)

declare findProductInJsonLd.simps [simp del]

text \<open>
  \<open>findProductInBrowser\<close>, declared inside the page script of \<open>scrapeWithPuppeteer\<close>:
  it returns the object typed \<open>Product\<close> itself.
\<close>

function findProductInBrowser :: "json \<Rightarrow> json option"
  and findInBrowserItems :: "json list \<Rightarrow> json option"
  and findInBrowserMembers :: "(string \<times> json) list \<Rightarrow> json option" where
  "findProductInBrowser data =
     (if \<not> js_truthy data then None
      else
        (case data of
           JArray items \<Rightarrow> findInBrowserItems items
         | JObject members \<Rightarrow>
             if isProductType data then Some data
             else
               (case map_of members ''@graph'' of
                  Some graph \<Rightarrow>
                    if js_truthy graph then findProductInBrowser graph
                    else findInBrowserMembers members
                | None \<Rightarrow> findInBrowserMembers members)
         | _ \<Rightarrow> None))"
| "findInBrowserItems [] = None"
| "findInBrowserItems (item # rest) =
     (case findProductInBrowser item of
        Some result \<Rightarrow> Some result
      | None \<Rightarrow> findInBrowserItems rest)"
| "findInBrowserMembers [] = None"
| "findInBrowserMembers ((key, v) # rest) =
     (if isObject v then
        (case findProductInBrowser v of
           Some result \<Rightarrow> Some result
         | None \<Rightarrow> findInBrowserMembers rest)
      else findInBrowserMembers rest)"
  by pat_completeness auto
termination
  by (relation "measure (\<lambda>x. case x of
          Inl j \<Rightarrow> size j
        | Inr (Inl items) \<Rightarrow> size_list size items
        | Inr (Inr ms) \<Rightarrow> size_list (size_prod (\<lambda>_. 0) size) ms)")
     (auto dest: size_map_of)

declare findProductInBrowser.simps [simp del]

subsection \<open>The document as the scraper reads it\<close>

text \<open>
  The scraper reads a document only through a fixed set of queries, so a document is the
  answers to them: the structured-data script blocks in document order (\<open>None\<close> for a
  block that \<open>JSON.parse\<close> rejects), the \<open>content\<close> of the first meta tag for each of
  the names asked for, the text of each element matched by the effective price selector,
  the text and \<open>disabled\<close> state of each element matched by the add-to-cart selector,
  and the text of each element matched by the product-area selectors, selector by
  selector. The effective selector is the custom one, else the store's, else the one of
  \<open>getDefaultSelector\<close>, which is never empty.
\<close>

datatype metaTag =
    OgPriceAmount
  | ProductPriceAmount
  | NamePrice
  | ProductPrice
  | TwitterData1
  | OgPriceCurrency
  | ProductPriceCurrency
  | NameCurrency
  | ProductCurrency

record document =
  jsonLdBlocks :: "json option list"
  metaContent :: "metaTag \<Rightarrow> string option"
  priceElements :: "string list"
  cartButtons :: "(string \<times> bool) list"
  productAreas :: "string list"

subsection \<open>Price and currency\<close>

text \<open>
  The extraction state is the pair of the variables \<open>price\<close> and \<open>currency\<close>
  (\<open>pr\<close> and \<open>cur\<close> below, the record fields having taken the names). The loop
  over the script blocks is the same text in both scrape methods; \<open>finder\<close> is what the
  name \<open>findProductInJsonLd\<close> is bound to where the loop runs. A block whose parse or
  whose search throws is skipped by the \<open>catch\<close>.
\<close>

type_synonym extraction = "jsnum option \<times> json"

fun jsonLdLoop ::
  "(json \<Rightarrow> error + json option) \<Rightarrow> json option list \<Rightarrow> extraction \<Rightarrow> extraction" where
  "jsonLdLoop finder [] st = st"
| "jsonLdLoop finder (block # rest) (pr, cur) =
     (case block of
        None \<Rightarrow> jsonLdLoop finder rest (pr, cur)
      | Some jsonData \<Rightarrow>
          (case finder jsonData of
             Inl e \<Rightarrow> jsonLdLoop finder rest (pr, cur)
           | Inr None \<Rightarrow> jsonLdLoop finder rest (pr, cur)
           | Inr (Some product) \<Rightarrow>
               (case getProp product ''price'' of
                  None \<Rightarrow> jsonLdLoop finder rest (pr, cur)
                | Some p \<Rightarrow>
                    if js_truthy p then
                      (Some (parseFloatJson p),
                       (case getProp product ''currency'' of
                          None \<Rightarrow> cur
                        | Some c \<Rightarrow> if js_truthy c then c else cur))
                    else jsonLdLoop finder rest (pr, cur))))"

text \<open>\<open>a || b || ...\<close> over attribute values: the first that is a non-empty string.\<close>

fun firstTruthy :: "string option list \<Rightarrow> string option" where
  "firstTruthy [] = None"
| "firstTruthy (v # vs) =
     (case v of
        None \<Rightarrow> firstTruthy vs
      | Some s \<Rightarrow> if s \<noteq> [] then Some s else firstTruthy vs)"

definition ogPriceAmount :: "document \<Rightarrow> string option" where
  "ogPriceAmount doc =
     firstTruthy (map (metaContent doc)
       [OgPriceAmount, ProductPriceAmount, NamePrice, ProductPrice, TwitterData1])"

definition ogPriceCurrency :: "document \<Rightarrow> string option" where
  "ogPriceCurrency doc =
     firstTruthy (map (metaContent doc)
       [OgPriceCurrency, ProductPriceCurrency, NameCurrency, ProductCurrency])"

definition metaStep :: "document \<Rightarrow> extraction \<Rightarrow> extraction" where
  "metaStep doc st =
     (case st of
        (Some p, cur) \<Rightarrow> st
      | (None, cur) \<Rightarrow>
          (case ogPriceAmount doc of
             None \<Rightarrow> st
           | Some amount \<Rightarrow>
               let numericPrice = parseFloat (filter (\<lambda>c. c \<noteq> CHR '','') amount) in
                 if numericPrice \<noteq> NaN \<and> js_gt numericPrice (Fin 0)
                 then (Some numericPrice,
                       (case ogPriceCurrency doc of
                          None \<Rightarrow> cur
                        | Some c \<Rightarrow> JString c))
                 else st))"

definition selectorStep :: "document \<Rightarrow> extraction \<Rightarrow> extraction" where
  "selectorStep doc st =
     (case st of
        (Some p, cur) \<Rightarrow> st
      | (None, cur) \<Rightarrow> (scanElements (priceElements doc), cur))"

definition extractPrice :: "(json \<Rightarrow> error + json option) \<Rightarrow> document \<Rightarrow> extraction" where
  "extractPrice finder doc =
     selectorStep doc (metaStep doc (jsonLdLoop finder (jsonLdBlocks doc) (None, JString ''AUD'')))"

subsection \<open>Availability\<close>

text \<open>
  The loop over the offers of one product. Calling \<open>toLowerCase\<close> on an availability
  that is not a string throws, as does reading a \<open>null\<close> offer.
\<close>

fun offerAvailability :: "json list \<Rightarrow> error + bool option" where
  "offerAvailability [] = Inr None"
| "offerAvailability (offer # rest) =
     (if offer = JNull then Inl TypeError
      else
        (case getProp offer ''availability'' of
           None \<Rightarrow> offerAvailability rest
         | Some a \<Rightarrow>
             if \<not> js_truthy a then offerAvailability rest
             else
               (case a of
                  JString s \<Rightarrow>
                    if js_includes (toLowerCase s) ''instock''
                       \<or> js_includes (toLowerCase s) ''in_stock''
                    then Inr (Some True)
                    else if js_includes (toLowerCase s) ''outofstock''
                       \<or> js_includes (toLowerCase s) ''out_of_stock''
                    then Inr (Some False)
                    else offerAvailability rest
                | _ \<Rightarrow> Inl TypeError)))"

text \<open>
  The loop over the script blocks that sets \<open>availabilityFromJsonLD\<close>. \<open>finder\<close> is the
  search the method calls: \<open>this.findProductInJsonLd\<close> in \<open>scrapeWithCheerio\<close>,
  \<open>findProductInBrowser\<close> in the page script.
\<close>

fun availabilityLoop ::
  "(json \<Rightarrow> error + json option) \<Rightarrow> json option list \<Rightarrow> bool option" where
  "availabilityLoop finder [] = None"
| "availabilityLoop finder (block # rest) =
     (case block of
        None \<Rightarrow> availabilityLoop finder rest
      | Some jsonData \<Rightarrow>
          (case finder jsonData of
             Inl e \<Rightarrow> availabilityLoop finder rest
           | Inr None \<Rightarrow> availabilityLoop finder rest
           | Inr (Some product) \<Rightarrow>
               (case getProp product ''offers'' of
                  None \<Rightarrow> availabilityLoop finder rest
                | Some offers \<Rightarrow>
                    if \<not> js_truthy offers then availabilityLoop finder rest
                    else
                      (case offerAvailability (offerArray offers) of
                         Inr (Some available) \<Rightarrow> Some available
                       | Inr None \<Rightarrow> availabilityLoop finder rest
                       | Inl e \<Rightarrow> availabilityLoop finder rest))))"

definition hasActiveAddToCart :: "(string \<times> bool) list \<Rightarrow> bool" where
  "hasActiveAddToCart bs =
     list_ex (\<lambda>(buttonText, isDisabled).
        (js_includes (toLowerCase buttonText) ''add to cart''
           \<or> js_includes (toLowerCase buttonText) ''buy now'') \<and> \<not> isDisabled) bs"

definition unavailableIndicators :: "string list" where
  "unavailableIndicators =
     [''out of stock'', ''sold out'', ''currently unavailable'', ''temporarily unavailable'']"

definition productAreaText :: "document \<Rightarrow> string" where
  "productAreaText doc = toLowerCase (concat (map (\<lambda>t. CHR '' '' # t) (productAreas doc)))"

definition classify :: "(json \<Rightarrow> error + json option) \<Rightarrow> document \<Rightarrow> bool" where
  "classify finder doc =
     (case availabilityLoop finder (jsonLdBlocks doc) of
        Some availabilityFromJsonLD \<Rightarrow> availabilityFromJsonLD
      | None \<Rightarrow>
          if hasActiveAddToCart (cartButtons doc) then True
          else \<not> list_ex (\<lambda>indicator. js_includes (productAreaText doc) indicator)
                   unavailableIndicators)"

subsection \<open>The two scrape methods and \<open>scrapePrice\<close>\<close>

text \<open>\<open>scrapeWithCheerio\<close> after the fetch.\<close>

definition extractStatic :: "document \<Rightarrow> ScrapeResult" where
  "extractStatic doc =
     \<lparr>price = fst (extractPrice findProductInJsonLd doc),
      currency = snd (extractPrice findProductInJsonLd doc),
      isAvailable = classify findProductInJsonLd doc,
      error = None\<rparr>"

text \<open>
  The page script of \<open>scrapeWithPuppeteer\<close> runs in the browser. There the price loop
  calls \<open>findProductInJsonLd\<close> by its bare name, which is bound neither in the page nor
  in the module (it is a static method of \<open>PriceScraper\<close>): the call throws a
  \<open>ReferenceError\<close>, which the \<open>catch\<close> of the loop swallows. The availability loop
  calls \<open>findProductInBrowser\<close>, which the script declares itself. The selector loop
  of the page script skips an element whose trimmed text is empty; such a text has no
  match, so the loop is \<open>scanElements\<close> as well.
\<close>

definition findProductInJsonLd_inPage :: "json \<Rightarrow> error + json option" where
  "findProductInJsonLd_inPage jsonData = Inl ReferenceError"

definition extractRendered :: "document \<Rightarrow> ScrapeResult" where
  "extractRendered doc =
     \<lparr>price = fst (extractPrice findProductInJsonLd_inPage doc),
      currency = snd (extractPrice findProductInJsonLd_inPage doc),
      isAvailable = classify (\<lambda>data. Inr (findProductInBrowser data)) doc,
      error = None\<rparr>"

text \<open>
  What \<open>scrapePrice\<close> calls: \<open>URLParser.parseURL\<close>, the headless browser and the HTTP
  client. Each either throws or answers; the two fetches answer with the document as
  read through the effective selector for the given custom selector.
\<close>

record ParsedProduct =
  cleanUrl :: string
  domain :: string

record environment =
  parseURL :: "string \<Rightarrow> error + ParsedProduct"
  renderPage :: "string \<Rightarrow> string option \<Rightarrow> error + document"
  httpGet :: "string \<Rightarrow> string option \<Rightarrow> error + document"

definition scrapeWithPuppeteer ::
  "environment \<Rightarrow> string \<Rightarrow> string option \<Rightarrow> error + ScrapeResult" where
  "scrapeWithPuppeteer env pageUrl customSelector =
     (case renderPage env pageUrl customSelector of
        Inl e \<Rightarrow> Inl e
      | Inr doc \<Rightarrow> Inr (extractRendered doc))"

definition scrapeWithCheerio ::
  "environment \<Rightarrow> string \<Rightarrow> string option \<Rightarrow> error + ScrapeResult" where
  "scrapeWithCheerio env pageUrl customSelector =
     (case httpGet env pageUrl customSelector of
        Inl e \<Rightarrow> Inl e
      | Inr doc \<Rightarrow> Inr (extractStatic doc))"

datatype scrapeMethod = Rendered | Static

definition noMethodWorked :: ScrapeResult where
  "noMethodWorked =
     \<lparr>price = None, currency = JString ''AUD'', isAvailable = False,
      error = Some ''Unable to extract price with any method''\<rparr>"

text \<open>
  The loop over \<open>methods\<close>. A method is run when the loop reaches it; the second
  component of the result lists the methods that were run, in order.
\<close>

fun tryMethods ::
  "(scrapeMethod \<times> (error + ScrapeResult)) list \<Rightarrow> scrapeMethod list
     \<Rightarrow> ScrapeResult \<times> scrapeMethod list" where
  "tryMethods [] tried = (noMethodWorked, tried)"
| "tryMethods ((m, outcome) # rest) tried =
     (case outcome of
        Inl e \<Rightarrow> tryMethods rest (tried @ [m])
      | Inr result \<Rightarrow>
          if price result \<noteq> None then (result, tried @ [m])
          else tryMethods rest (tried @ [m]))"

definition scrapePrice ::
  "environment \<Rightarrow> string \<Rightarrow> string option
     \<Rightarrow> error + ScrapeResult \<times> scrapeMethod list" where
  "scrapePrice env pageUrl customSelector =
     (case parseURL env pageUrl of
        Inl e \<Rightarrow> Inl e
      | Inr parsed \<Rightarrow>
          Inr (tryMethods
                 [(Rendered, scrapeWithPuppeteer env (cleanUrl parsed) customSelector),
                  (Static, scrapeWithCheerio env (cleanUrl parsed) customSelector)] []))"

text \<open>A method's outcome counts when it returned a result whose price is not null.\<close>

definition yieldsPrice :: "error + ScrapeResult \<Rightarrow> bool" where
  "yieldsPrice outcome = (case outcome of Inl e \<Rightarrow> False | Inr r \<Rightarrow> price r \<noteq> None)"

subsection \<open>The strategies as the specification lists them\<close>

text \<open>
  What one script block yields to the structured-data strategy: the number read from the
  price of the product found in it and the product's currency, when the block parses,
  the search returns a product without throwing, and the product's price is truthy.
\<close>

definition blockYield ::
  "(json \<Rightarrow> error + json option) \<Rightarrow> json option \<Rightarrow> (jsnum \<times> json) option" where
  "blockYield finder block =
     (case block of
        None \<Rightarrow> None
      | Some jsonData \<Rightarrow>
          (case finder jsonData of
             Inl e \<Rightarrow> None
           | Inr None \<Rightarrow> None
           | Inr (Some product) \<Rightarrow>
               (case getProp product ''price'' of
                  None \<Rightarrow> None
                | Some p \<Rightarrow>
                    if js_truthy p then
                      Some (parseFloatJson p,
                            (case getProp product ''currency'' of
                               None \<Rightarrow> JString ''AUD''
                             | Some c \<Rightarrow> if js_truthy c then c else JString ''AUD''))
                    else None)))"

fun firstSome :: "'a option list \<Rightarrow> 'a option" where
  "firstSome [] = None"
| "firstSome (x # xs) = (case x of Some y \<Rightarrow> Some y | None \<Rightarrow> firstSome xs)"

text \<open>
  The three strategies, each giving the price and currency it accepts, if any, and the
  first of them, in the fixed order, that gives one.
\<close>

definition spec_structuredData ::
  "(json \<Rightarrow> error + json option) \<Rightarrow> document \<Rightarrow> (jsnum \<times> json) option" where
  "spec_structuredData finder doc = firstSome (map (blockYield finder) (jsonLdBlocks doc))"

definition spec_metaTags :: "document \<Rightarrow> (jsnum \<times> json) option" where
  "spec_metaTags doc =
     (case ogPriceAmount doc of
        None \<Rightarrow> None
      | Some amount \<Rightarrow>
          if parseFloat (filter (\<lambda>c. c \<noteq> CHR '','') amount) \<noteq> NaN
             \<and> js_gt (parseFloat (filter (\<lambda>c. c \<noteq> CHR '','') amount)) (Fin 0)
          then Some (parseFloat (filter (\<lambda>c. c \<noteq> CHR '','') amount),
                     (case ogPriceCurrency doc of
                        None \<Rightarrow> JString ''AUD''
                      | Some c \<Rightarrow> JString c))
          else None)"

definition spec_selector :: "document \<Rightarrow> (jsnum \<times> json) option" where
  "spec_selector doc = map_option (\<lambda>n. (n, JString ''AUD'')) (scanElements (priceElements doc))"

definition spec_firstStrategy ::
  "(json \<Rightarrow> error + json option) \<Rightarrow> document \<Rightarrow> (jsnum \<times> json) option" where
  "spec_firstStrategy finder doc =
     firstSome [spec_structuredData finder doc, spec_metaTags doc, spec_selector doc]"

text \<open>\<open>offer.priceCurrency || 'AUD'\<close>\<close>

definition offerCurrency :: "json \<Rightarrow> json" where
  "offerCurrency offer =
     (case getProp offer ''priceCurrency'' of
        None \<Rightarrow> JString ''AUD''
      | Some c \<Rightarrow> if js_truthy c then c else JString ''AUD'')"

subsection \<open>Example documents\<close>

text \<open>An element text on which each of the four patterns has its own matches.\<close>

definition sampleText :: string where
  "sampleText = ''Was $1,499.00, now 1,237.00 $ or AUD 1,237.50''"

definition emptyPage :: document where
  "emptyPage = \<lparr>jsonLdBlocks = [], metaContent = (\<lambda>tag. None), priceElements = [],
                 cartButtons = [], productAreas = []\<rparr>"

text \<open>A \<open>Product\<close> with one offer, of the given price and availability.\<close>

definition productJson :: "json \<Rightarrow> string \<Rightarrow> json" where
  "productJson p availability =
     JObject [(''@context'', JString ''https://schema.org''),
              (''@type'', JString ''Product''),
              (''name'', JString ''Widget''),
              (''offers'', JObject [(''@type'', JString ''Offer''),
                                   (''price'', p),
                                   (''priceCurrency'', JString ''USD''),
                                   (''availability'', JString availability)])]"

definition widgetJson :: json where
  "widgetJson = productJson (JString ''19.99'') ''https://schema.org/InStock''"

text \<open>
  A page whose only signal is a structured-data offer that is out of stock.
\<close>

definition outOfStockPage :: document where
  "outOfStockPage =
     emptyPage\<lparr>jsonLdBlocks :=
       [Some (productJson (JString ''10.00'') ''https://schema.org/OutOfStock'')]\<rparr>"

text \<open>
  A page whose product sits in a graph container behind a block that does not parse, and
  which also has a price meta tag and a price element.
\<close>

definition graphPage :: document where
  "graphPage =
     \<lparr>jsonLdBlocks =
        [None,
         Some (JObject [(''@context'', JString ''https://schema.org''),
                        (''@graph'',
                           JArray [JObject [(''@type'', JString ''WebSite'')],
                                   productJson (JString ''19.99'')
                                     ''https://schema.org/InStock''])])],
      metaContent = (\<lambda>tag. if tag = OgPriceAmount then Some ''25.00'' else None),
      priceElements = [''$30.00''],
      cartButtons = [(''Add to Cart'', False)],
      productAreas = []\<rparr>"

text \<open>A page whose structured data carries a negative price and whose meta tag says 25.\<close>

definition negativePricePage :: document where
  "negativePricePage =
     \<lparr>jsonLdBlocks = [Some (productJson (JString ''-5'') ''https://schema.org/InStock'')],
      metaContent = (\<lambda>tag. if tag = OgPriceAmount then Some ''25'' else None),
      priceElements = [],
      cartButtons = [],
      productAreas = []\<rparr>"

text \<open>
  A world in which every URL parses, the browser cannot be started, and the HTTP client
  returns \<open>graphPage\<close>; and one in which the HTTP client fails as well.
\<close>

definition staticOnly :: environment where
  "staticOnly =
     \<lparr>parseURL = (\<lambda>u. Inr \<lparr>cleanUrl = u, domain = ''shop.example''\<rparr>),
      renderPage = (\<lambda>u c. Inl FetchError),
      httpGet = (\<lambda>u c. Inr graphPage)\<rparr>"

definition offline :: environment where
  "offline =
     \<lparr>parseURL = (\<lambda>u. Inr \<lparr>cleanUrl = u, domain = ''shop.example''\<rparr>),
      renderPage = (\<lambda>u c. Inl FetchError),
      httpGet = (\<lambda>u c. Inl FetchError)\<rparr>"

section \<open>The persistent store (\<open>db/schema.ts\<close>)\<close>

text \<open>
  Timestamps are milliseconds. A decimal column read back as text and passed to
  \<open>parseFloat\<close> is modelled by the number it holds; the rounding of the column to two
  decimals and failures of the database itself are outside the model. Every
  \<open>new Date()\<close> of one operation reads the time passed to that operation.
\<close>

type_synonym time = int

record product =
  pid :: nat
  name :: string
  url :: string
  selector :: "string option"
  currentPrice :: "jsnum option"
  targetPrice :: "jsnum option"
  isActive :: bool
  lastChecked :: "time option"
  updatedAt :: time

record priceHistoryRow =
  h_productId :: nat
  h_price :: jsnum
  h_currency :: json
  scrapedAt :: time
  h_isAvailable :: bool

datatype notificationType = price_drop | target_reached | back_in_stock

text \<open>The message templates of \<open>scheduler.ts\<close>, by template and the values filled in.\<close>

datatype message =
    PriceDropAlert string jsnum jsnum
  | TargetPriceReached string jsnum jsnum
  | CurrentlyOutOfStock string
  | BackInStockFor string jsnum
  | Custom string

record notification =
  nid :: nat
  n_productId :: nat
  ntype :: notificationType
  message :: message
  sent :: bool
  sentAt :: "time option"
  createdAt :: time

record database =
  products :: "product list"
  priceHistory :: "priceHistoryRow list"
  notifications :: "notification list"
  nextNotificationId :: nat

section \<open>\<open>PriceMonitorScheduler\<close> (\<open>services/scheduler.ts\<close>)\<close>

definition insertNotification ::
  "database \<Rightarrow> nat \<Rightarrow> notificationType \<Rightarrow> message \<Rightarrow> time \<Rightarrow> database" where
  "insertNotification db productId ty msg now =
     db\<lparr>notifications := notifications db @
            [\<lparr>nid = nextNotificationId db, n_productId = productId, ntype = ty,
              message = msg, sent = False, sentAt = None, createdAt = now\<rparr>],
        nextNotificationId := Suc (nextNotificationId db)\<rparr>"

definition createNotification ::
  "database \<Rightarrow> nat \<Rightarrow> notificationType \<Rightarrow> message \<Rightarrow> time \<Rightarrow> database" where
  "createNotification db productId ty msg now = insertNotification db productId ty msg now"

text \<open>
  The two queries of \<open>checkTargetPriceNotification\<close>: the last five \<open>target_reached\<close>
  notifications of the product, newest first, and the last ten price-history rows of the
  product scraped strictly after a given time, newest first.
\<close>

definition recentNotifications :: "database \<Rightarrow> nat \<Rightarrow> notification list" where
  "recentNotifications db productId =
     take 5 (rev (sort_key createdAt
       (filter (\<lambda>n. n_productId n = productId \<and> ntype n = target_reached)
          (notifications db))))"

definition recentPriceHistory :: "database \<Rightarrow> nat \<Rightarrow> time \<Rightarrow> priceHistoryRow list" where
  "recentPriceHistory db productId since =
     take 10 (rev (sort_key scrapedAt
       (filter (\<lambda>h. h_productId h = productId \<and> since < scrapedAt h)
          (priceHistory db))))"


definition checkTargetPriceNotification ::
  "database \<Rightarrow> product \<Rightarrow> jsnum option \<Rightarrow> jsnum \<Rightarrow> time \<Rightarrow> database" where
  "checkTargetPriceNotification db product current newPrice now =
     (case targetPrice product of
        None \<Rightarrow> db
      | Some target \<Rightarrow>
          if js_gt newPrice target then db
          else
            let isCrossingThreshold =
                  (case current of
                     None \<Rightarrow> True
                   | Some c \<Rightarrow> num_falsy c \<or> js_gt c target)
            in
              if \<not> isCrossingThreshold then db
              else
                (case recentNotifications db (pid product) of
                   [] \<Rightarrow>
                     createNotification db (pid product) target_reached
                       (TargetPriceReached (name product) newPrice target) now
                 | mostRecent # _ \<Rightarrow>
                     let wasAboveTargetSinceNotification =
                           list_ex (\<lambda>h. js_gt (h_price h) target)
                             (recentPriceHistory db (pid product) (createdAt mostRecent))
                     in
                       if \<not> wasAboveTargetSinceNotification then db
                       else
                         createNotification db (pid product) target_reached
                           (TargetPriceReached (name product) newPrice target) now))"

text \<open>
  \<open>checkProductPrice\<close>. The outcome of \<open>PriceScraper.scrapePrice\<close> is the third
  argument: \<open>Inl\<close> when it threw (the surrounding \<open>try\<close> logs the error and
  returns), \<open>Inr\<close> its result otherwise. \<open>product\<close> is the row as the caller read it.
\<close>

definition checkProductPrice ::
  "database \<Rightarrow> product \<Rightarrow> error + ScrapeResult \<Rightarrow> time \<Rightarrow> database" where
  "checkProductPrice db product outcome now =
     (case outcome of
        Inl e \<Rightarrow> db
      | Inr scrapeResult \<Rightarrow>
          (case price scrapeResult of
             None \<Rightarrow> db
           | Some newPrice \<Rightarrow>
               let current = currentPrice product;
                   db1 = db\<lparr>priceHistory := priceHistory db @
                           [\<lparr>h_productId = pid product, h_price = newPrice,
                             h_currency = currency scrapeResult, scrapedAt = now,
                             h_isAvailable = isAvailable scrapeResult\<rparr>]\<rparr>;
                   db2 = db1\<lparr>products :=
                           map (\<lambda>p. if pid p = pid product
                                     then p\<lparr>currentPrice := Some newPrice,
                                            lastChecked := Some now, updatedAt := now\<rparr>
                                     else p) (products db1)\<rparr>;
                   db3 = (case current of
                            None \<Rightarrow> db2
                          | Some c \<Rightarrow>
                              if js_lt newPrice c
                              then createNotification db2 (pid product) price_drop
                                     (PriceDropAlert (name product) c newPrice) now
                              else db2);
                   db4 = checkTargetPriceNotification db3 product current newPrice now
               in
                 if \<not> isAvailable scrapeResult \<and> currentPrice product \<noteq> None
                 then createNotification db4 (pid product) back_in_stock
                        (CurrentlyOutOfStock (name product)) now
                 else if isAvailable scrapeResult \<and> currentPrice product = None
                 then createNotification db4 (pid product) back_in_stock
                        (BackInStockFor (name product) newPrice) now
                 else db4))"

text \<open>
  The check with its call \<open>PriceScraper.scrapePrice(product.url, product.selector ||
  undefined)\<close> in place.
\<close>

definition scrapeAndCheck :: "environment \<Rightarrow> database \<Rightarrow> product \<Rightarrow> time \<Rightarrow> database" where
  "scrapeAndCheck env db product now =
     checkProductPrice db product
       (case scrapePrice env (url product)
               (case selector product of
                  None \<Rightarrow> None
                | Some sel \<Rightarrow> if sel = [] then None else Some sel) of
          Inl e \<Rightarrow> Inl e
        | Inr (result, tried) \<Rightarrow> Inr result)
       now"

text \<open>\<open>checkSingleProduct\<close>: read the row by id, then check it.\<close>

definition checkSingleProduct ::
  "database \<Rightarrow> nat \<Rightarrow> error + ScrapeResult \<Rightarrow> time \<Rightarrow> error + database" where
  "checkSingleProduct db productId outcome now =
     (case filter (\<lambda>p. pid p = productId) (products db) of
        [] \<Rightarrow> Inl ProductNotFound
      | product # _ \<Rightarrow> Inr (checkProductPrice db product outcome now))"

text \<open>
  \<open>checkAllProductPrices\<close>: the active rows are read once, then every row is checked.
  The checks of one tick run concurrently in the source; here they run in table order.
  \<open>scrape\<close> gives the outcome of the scrape of each product.
\<close>

fun checkEach ::
  "(product \<Rightarrow> error + ScrapeResult) \<Rightarrow> time \<Rightarrow> product list \<Rightarrow> database \<Rightarrow> database" where
  "checkEach scrape now [] db = db"
| "checkEach scrape now (p # ps) db =
     checkEach scrape now ps (checkProductPrice db p (scrape p) now)"

definition checkAllProductPrices ::
  "database \<Rightarrow> (product \<Rightarrow> error + ScrapeResult) \<Rightarrow> time \<Rightarrow> database" where
  "checkAllProductPrices db scrape now =
     checkEach scrape now (filter isActive (products db)) db"

text \<open>
  \<open>cleanupOldPriceHistory\<close>: rows scraped more than ninety days ago are deleted
  (a day counted as 24 hours).
\<close>

definition ninetyDays :: time where
  "ninetyDays = 90 * 24 * 60 * 60 * 1000"

definition cleanupOldPriceHistory :: "database \<Rightarrow> time \<Rightarrow> database" where
  "cleanupOldPriceHistory db now =
     db\<lparr>priceHistory := filter (\<lambda>h. \<not> scrapedAt h < now - ninetyDays) (priceHistory db)\<rparr>"

section \<open>\<open>NotificationService\<close> (\<open>services/notifications.ts\<close>)\<close>

text \<open>
  \<open>sendNotification\<close> talks to the external push service. Its outcome for a message of
  a given type is a parameter: \<open>Inr True\<close> when the service accepted the message,
  \<open>Inr False\<close> when it failed or no credentials are configured, \<open>Inl\<close> when the
  call threw.
\<close>

type_synonym notifier = "message \<Rightarrow> notificationType \<Rightarrow> error + bool"

fun getNotificationPriority :: "notificationType \<Rightarrow> int" where
  "getNotificationPriority target_reached = 1"
| "getNotificationPriority price_drop = 0"
| "getNotificationPriority back_in_stock = 0"

text \<open>\<open>update notifications set sent = true, sentAt = now where id = i\<close>.\<close>

definition markSent :: "database \<Rightarrow> nat \<Rightarrow> time \<Rightarrow> database" where
  "markSent db i now =
     db\<lparr>notifications :=
          map (\<lambda>n. if nid n = i then n\<lparr>sent := True, sentAt := Some now\<rparr> else n)
            (notifications db)\<rparr>"

text \<open>
  The loop of \<open>sendPendingNotifications\<close>. The second component of the state lists the
  notifications handed to \<open>sendNotification\<close>, in order. The row is marked in the
  \<open>try\<close> block after the send returned, and in the \<open>catch\<close> block when it threw.
\<close>

fun processPending ::
  "notifier \<Rightarrow> time \<Rightarrow> notification list \<Rightarrow> database \<times> notification list
     \<Rightarrow> database \<times> notification list" where
  "processPending send now [] st = st"
| "processPending send now (n # ns) (db, attempted) =
     (case send (message n) (ntype n) of
        Inr success \<Rightarrow>
          processPending send now ns (markSent db (nid n) now, attempted @ [n])
      | Inl e \<Rightarrow>
          processPending send now ns (markSent db (nid n) now, attempted @ [n]))"

text \<open>
  The query has no \<open>order by\<close>; the model takes the first ten unsent rows in table order.
\<close>

definition pendingNotifications :: "database \<Rightarrow> notification list" where
  "pendingNotifications db = take 10 (filter (\<lambda>n. \<not> sent n) (notifications db))"

definition sendPendingNotifications ::
  "database \<Rightarrow> notifier \<Rightarrow> time \<Rightarrow> database \<times> notification list" where
  "sendPendingNotifications db send now =
     (if pendingNotifications db = [] then (db, [])
      else processPending send now (pendingNotifications db) (db, []))"

text \<open>
  \<open>createAndSendNotification\<close>. The result pairs the store with the error the function
  rethrows, if any; the inserted row stays in the store when the send throws.
\<close>

definition createAndSendNotification ::
  "database \<Rightarrow> nat \<Rightarrow> notificationType \<Rightarrow> message \<Rightarrow> bool \<Rightarrow> notifier \<Rightarrow> time
     \<Rightarrow> database \<times> error option" where
  "createAndSendNotification db productId ty msg immediate send now =
     (let db1 = insertNotification db productId ty msg now in
        if immediate then
          (case send msg ty of
             Inl e \<Rightarrow> (db1, Some e)
           | Inr success \<Rightarrow>
               (db1\<lparr>notifications :=
                      map (\<lambda>n. if n_productId n = productId
                                then n\<lparr>sent := True, sentAt := Some now\<rparr> else n)
                        (notifications db1)\<rparr>, None))
        else (db1, None))"

text \<open>
  \<open>cleanupOldNotifications\<close>, reached only from the HTTP route \<open>POST /cleanup\<close>: it
  deletes every sent notification (the thirty-day bound it computes is not used).
\<close>

definition cleanupOldNotifications :: "database \<Rightarrow> database" where
  "cleanupOldNotifications db =
     db\<lparr>notifications := filter (\<lambda>n. \<not> sent n) (notifications db)\<rparr>"

section \<open>The operations of the scheduler and the notification service\<close>

text \<open>
  The operations the scheduler's jobs and the services run: the price-check tick, a
  manual check of one product, the notification-dispatch tick, the retention tick, and
  \<open>createAndSendNotification\<close>.
\<close>

datatype coreOp =
    PriceCheckTick "product \<Rightarrow> error + ScrapeResult" time
  | SingleCheck nat "error + ScrapeResult" time
  | DispatchTick notifier time
  | RetentionTick time
  | CreateAndSend nat notificationType message bool notifier time

fun coreStep :: "coreOp \<Rightarrow> database \<Rightarrow> database" where
  "coreStep (PriceCheckTick scrape now) db = checkAllProductPrices db scrape now"
| "coreStep (SingleCheck productId outcome now) db =
     (case checkSingleProduct db productId outcome now of Inl e \<Rightarrow> db | Inr db' \<Rightarrow> db')"
| "coreStep (DispatchTick send now) db = fst (sendPendingNotifications db send now)"
| "coreStep (RetentionTick now) db = cleanupOldPriceHistory db now"
| "coreStep (CreateAndSend productId ty msg immediate send now) db =
     fst (createAndSendNotification db productId ty msg immediate send now)"

fun runCore :: "coreOp list \<Rightarrow> database \<Rightarrow> database" where
  "runCore [] db = db"
| "runCore (op # ops) db = runCore ops (coreStep op db)"

text \<open>
  What the operations may do to a notification: keep its identity, product, type, message
  and creation time, and never clear its \<open>sent\<close> flag.
\<close>

definition sameEvent :: "notification \<Rightarrow> notification \<Rightarrow> bool" where
  "sameEvent n n' =
     (nid n' = nid n \<and> n_productId n' = n_productId n \<and> ntype n' = ntype n \<and>
      message n' = message n \<and> createdAt n' = createdAt n \<and> (sent n \<longrightarrow> sent n'))"

text \<open>
  \<open>evolves db db'\<close>: every notification of \<open>db\<close> is still at its place in
  \<open>db'\<close>, changed at most in \<open>sent\<close> and \<open>sentAt\<close>, and every row after
  them carries an id that \<open>db\<close> had not yet given out.
\<close>

definition evolves :: "database \<Rightarrow> database \<Rightarrow> bool" where
  "evolves db db' =
     (length (notifications db) \<le> length (notifications db') \<and>
      (\<forall>i < length (notifications db). sameEvent (notifications db ! i) (notifications db' ! i)) \<and>
      (\<forall>i. length (notifications db) \<le> i \<and> i < length (notifications db') \<longrightarrow>
           nextNotificationId db \<le> nid (notifications db' ! i)) \<and>
      nextNotificationId db \<le> nextNotificationId db')"

text \<open>The update of \<open>createAndSendNotification\<close>, row by row.\<close>

definition markProduct :: "nat \<Rightarrow> time \<Rightarrow> notification \<Rightarrow> notification" where
  "markProduct p t n = (if n_productId n = p then n\<lparr>sent := True, sentAt := Some t\<rparr> else n)"

section \<open>Example stores\<close>

definition widget :: product where
  "widget = \<lparr>pid = 1, name = ''Widget'', url = ''https://shop.example/widget'',
              selector = None, currentPrice = None, targetPrice = Some (Fin 100),
              isActive = True, lastChecked = None, updatedAt = 0\<rparr>"


text \<open>A scrape that found price \<open>p\<close> and availability \<open>a\<close>.\<close>

definition observed :: "rat \<Rightarrow> bool \<Rightarrow> error + ScrapeResult" where
  "observed p a = Inr \<lparr>price = Some (Fin p), currency = JString ''AUD'', isAvailable = a,
                        error = None\<rparr>"

definition noPrice :: ScrapeResult where
  "noPrice = \<lparr>price = None, currency = JString ''AUD'', isAvailable = False,
               error = Some ''Unable to extract price with any method''\<rparr>"

definition sampleStore :: database where
  "sampleStore =
     \<lparr>products = [widget], priceHistory = [],
      notifications =
        [\<lparr>nid = 0, n_productId = 1, ntype = price_drop,
          message = PriceDropAlert ''Widget'' (Fin 150) (Fin 120), sent = True,
          sentAt = Some 1500, createdAt = 1000\<rparr>,
         \<lparr>nid = 1, n_productId = 1, ntype = target_reached,
          message = TargetPriceReached ''Widget'' (Fin 90) (Fin 100), sent = False,
          sentAt = None, createdAt = 2000\<rparr>,
         \<lparr>nid = 2, n_productId = 2, ntype = back_in_stock,
          message = CurrentlyOutOfStock ''Gadget'', sent = False,
          sentAt = None, createdAt = 2500\<rparr>],
      nextNotificationId = 3\<rparr>"



text \<open>A product in stock at 100, with no target price.\<close>

definition gadget :: product where
  "gadget = \<lparr>pid = 2, name = ''Gadget'', url = ''https://shop.example/gadget'',
              selector = None, currentPrice = Some (Fin 100), targetPrice = None,
              isActive = True, lastChecked = Some 500, updatedAt = 500\<rparr>"

definition gadgetStore :: database where
  "gadgetStore =
     \<lparr>products = [gadget],
      priceHistory = [\<lparr>h_productId = 2, h_price = Fin 100, h_currency = JString ''AUD'',
                       scrapedAt = 500, h_isAvailable = True\<rparr>],
      notifications = [], nextNotificationId = 0\<rparr>"

definition failingNotifier :: notifier where
  "failingNotifier msg ty = (if ty = target_reached then Inl DeliveryError else Inr False)"

section \<open>Notifications are kept by every operation\<close>

lemma sameEvent_refl: "sameEvent n n"
  by (simp add: sameEvent_def)

lemma sameEvent_trans: "sameEvent a b \<Longrightarrow> sameEvent b c \<Longrightarrow> sameEvent a c"
  by (simp add: sameEvent_def)

lemma evolves_refl: "evolves db db"
  by (simp add: evolves_def sameEvent_refl)

lemma evolves_trans:
  assumes "evolves a b" and "evolves b c"
  shows "evolves a c"
proof -
  let ?A = "notifications a" and ?B = "notifications b" and ?C = "notifications c"
  have len: "length ?A \<le> length ?B" "length ?B \<le> length ?C"
    using assms by (simp_all add: evolves_def)
  have ids: "nextNotificationId a \<le> nextNotificationId b" "nextNotificationId b \<le> nextNotificationId c"
    using assms by (simp_all add: evolves_def)
  have old: "sameEvent (?A ! i) (?C ! i)" if "i < length ?A" for i
  proof -
    have "sameEvent (?A ! i) (?B ! i)" using assms(1) that by (simp add: evolves_def)
    moreover have "sameEvent (?B ! i) (?C ! i)" using assms(2) that len by (simp add: evolves_def)
    ultimately show ?thesis by (rule sameEvent_trans)
  qed
  have new: "nextNotificationId a \<le> nid (?C ! i)" if "length ?A \<le> i" "i < length ?C" for i
  proof (cases "i < length ?B")
    case True
    then have "nextNotificationId a \<le> nid (?B ! i)" using assms(1) that by (simp add: evolves_def)
    moreover have "sameEvent (?B ! i) (?C ! i)" using assms(2) True by (simp add: evolves_def)
    ultimately show ?thesis by (simp add: sameEvent_def)
  next
    case False
    then have "nextNotificationId b \<le> nid (?C ! i)" using assms(2) that by (simp add: evolves_def)
    then show ?thesis using ids by simp
  qed
  have "length ?A \<le> length ?C" using len by simp
  moreover have "nextNotificationId a \<le> nextNotificationId c" using ids by simp
  ultimately show ?thesis
    unfolding evolves_def using old new by blast
qed

lemma evolves_frame:
  "notifications db' = notifications db \<Longrightarrow> nextNotificationId db' = nextNotificationId db
     \<Longrightarrow> evolves db db'"
  by (simp add: evolves_def sameEvent_refl)

lemma evolves_insertNotification: "evolves db (insertNotification db p ty m t)"
  by (auto simp: evolves_def insertNotification_def sameEvent_refl nth_append)

lemma evolves_createNotification: "evolves db (createNotification db p ty m t)"
  by (simp add: createNotification_def evolves_insertNotification)

lemma evolves_map:
  "(\<And>n. sameEvent n (f n)) \<Longrightarrow> evolves db (db\<lparr>notifications := map f (notifications db)\<rparr>)"
  by (simp add: evolves_def)

lemma evolves_checkTargetPriceNotification:
  "evolves db (checkTargetPriceNotification db p c np t)"
  by (simp add: checkTargetPriceNotification_def Let_def evolves_refl evolves_createNotification
        split: option.split list.split)

lemma evolves_checkProductPrice: "evolves db (checkProductPrice db p outcome t)"
proof (cases outcome)
  case (Inl e)
  then show ?thesis by (simp add: checkProductPrice_def evolves_refl)
next
  case (Inr r)
  show ?thesis
  proof (cases "price r")
    case None
    with Inr show ?thesis by (simp add: checkProductPrice_def evolves_refl)
  next
    case (Some np)
    define db1 where "db1 = db\<lparr>priceHistory := priceHistory db @
                           [\<lparr>h_productId = pid p, h_price = np,
                             h_currency = currency r, scrapedAt = t,
                             h_isAvailable = isAvailable r\<rparr>]\<rparr>"
    define db2 where "db2 = db1\<lparr>products :=
                           map (\<lambda>q. if pid q = pid p
                                     then q\<lparr>currentPrice := Some np,
                                            lastChecked := Some t, updatedAt := t\<rparr>
                                     else q) (products db1)\<rparr>"
    define db3 where "db3 = (case currentPrice p of
                            None \<Rightarrow> db2
                          | Some c \<Rightarrow>
                              if js_lt np c
                              then createNotification db2 (pid p) price_drop
                                     (PriceDropAlert (name p) c np) t
                              else db2)"
    define db4 where "db4 = checkTargetPriceNotification db3 p (currentPrice p) np t"
    have e2: "evolves db db2" by (rule evolves_frame) (simp_all add: db2_def db1_def)
    have e3: "evolves db2 db3"
      by (simp add: db3_def evolves_refl evolves_createNotification split: option.split)
    have e4: "evolves db3 db4" by (simp add: db4_def evolves_checkTargetPriceNotification)
    have e: "evolves db db4"
      by (rule evolves_trans [OF e2 evolves_trans [OF e3 e4]])
    have res: "checkProductPrice db p outcome t =
        (if \<not> isAvailable r \<and> currentPrice p \<noteq> None
                 then createNotification db4 (pid p) back_in_stock
                        (CurrentlyOutOfStock (name p)) t
                 else if isAvailable r \<and> currentPrice p = None
                 then createNotification db4 (pid p) back_in_stock
                        (BackInStockFor (name p) np) t
                 else db4)"
      using Inr Some
      by (cases "currentPrice p")
         (simp_all add: checkProductPrice_def Let_def db1_def db2_def db3_def db4_def)
    have c: "evolves db (createNotification db4 q ty m t)" for q ty m
      by (rule evolves_trans [OF e evolves_createNotification])
    show ?thesis
      unfolding res by (simp add: c e)
  qed
qed

lemma evolves_checkEach: "evolves db (checkEach scrape t ps db)"
proof (induction ps arbitrary: db)
  case Nil
  show ?case by (simp add: evolves_refl)
next
  case (Cons p ps)
  have "evolves (checkProductPrice db p (scrape p) t)
          (checkEach scrape t ps (checkProductPrice db p (scrape p) t))"
    by (rule Cons.IH)
  then have "evolves db (checkEach scrape t ps (checkProductPrice db p (scrape p) t))"
    by (rule evolves_trans [OF evolves_checkProductPrice])
  then show ?case by simp
qed

lemma evolves_markSent: "evolves db (markSent db i t)"
  unfolding markSent_def by (rule evolves_map) (simp add: sameEvent_def)

lemma evolves_processPending: "evolves db (fst (processPending send t ns (db, a)))"
proof (induction ns arbitrary: db a)
  case Nil
  show ?case by (simp add: evolves_refl)
next
  case (Cons n ns)
  have "evolves (markSent db (nid n) t) (fst (processPending send t ns (markSent db (nid n) t, a @ [n])))"
    by (rule Cons.IH)
  then have "evolves db (fst (processPending send t ns (markSent db (nid n) t, a @ [n])))"
    by (rule evolves_trans [OF evolves_markSent])
  then show ?case by (simp split: sum.split)
qed

lemma evolves_sendPendingNotifications: "evolves db (fst (sendPendingNotifications db send t))"
  by (simp add: sendPendingNotifications_def evolves_refl evolves_processPending)

lemma evolves_createAndSendNotification:
  "evolves db (fst (createAndSendNotification db p ty m imm send t))"
proof -
  let ?db1 = "insertNotification db p ty m t"
  have 1: "evolves db ?db1" by (rule evolves_insertNotification)
  have 2: "evolves ?db1 (?db1\<lparr>notifications :=
                      map (\<lambda>n. if n_productId n = p
                                then n\<lparr>sent := True, sentAt := Some t\<rparr> else n)
                        (notifications ?db1)\<rparr>)"
    by (rule evolves_map) (simp add: sameEvent_def)
  have 3: "evolves db (?db1\<lparr>notifications :=
                      map (\<lambda>n. if n_productId n = p
                                then n\<lparr>sent := True, sentAt := Some t\<rparr> else n)
                        (notifications ?db1)\<rparr>)"
    by (rule evolves_trans [OF 1 2])
  show ?thesis
    by (simp add: createAndSendNotification_def Let_def 1 3 split: sum.split)
qed

lemma evolves_coreStep: "evolves db (coreStep op db)"
proof (cases op)
  case (PriceCheckTick scrape t)
  then show ?thesis by (simp add: checkAllProductPrices_def evolves_checkEach)
next
  case (SingleCheck p outcome t)
  then show ?thesis
    by (simp add: checkSingleProduct_def evolves_refl evolves_checkProductPrice split: list.split)
next
  case (DispatchTick send t)
  then show ?thesis by (simp add: evolves_sendPendingNotifications)
next
  case (RetentionTick t)
  then show ?thesis by (simp add: cleanupOldPriceHistory_def evolves_frame)
next
  case (CreateAndSend p ty m imm send t)
  then show ?thesis by (simp add: evolves_createAndSendNotification)
qed

lemma evolves_runCore: "evolves db (runCore ops db)"
proof (induction ops arbitrary: db)
  case Nil
  show ?case by (simp add: evolves_refl)
next
  case (Cons op ops)
  have "evolves (coreStep op db) (runCore ops (coreStep op db))"
    by (rule Cons.IH)
  then have "evolves db (runCore ops (coreStep op db))"
    by (rule evolves_trans [OF evolves_coreStep])
  then show ?case by simp
qed

text \<open>
  C9: no operation of the scheduler or the notification service deletes a notification or
  moves it: after any sequence of them the \<open>i\<close>-th notification is still the
  \<open>i\<close>-th, with its id, product, type, message and creation time, and a notification
  that was sent stays sent. Only \<open>sent\<close> and \<open>sentAt\<close> may differ. Deletion
  is done by \<open>cleanupOldNotifications\<close> and the HTTP routes, which are not among
  these operations.
\<close>

theorem C9_core_keeps_notifications:
  assumes "i < length (notifications db)"
  shows "i < length (notifications (runCore ops db)) \<and>
         nid (notifications (runCore ops db) ! i) = nid (notifications db ! i) \<and>
         n_productId (notifications (runCore ops db) ! i) = n_productId (notifications db ! i) \<and>
         ntype (notifications (runCore ops db) ! i) = ntype (notifications db ! i) \<and>
         message (notifications (runCore ops db) ! i) = message (notifications db ! i) \<and>
         createdAt (notifications (runCore ops db) ! i) = createdAt (notifications db ! i) \<and>
         (sent (notifications db ! i) \<longrightarrow> sent (notifications (runCore ops db) ! i))"
proof -
  have ev: "evolves db (runCore ops db)" by (rule evolves_runCore)
  then have "sameEvent (notifications db ! i) (notifications (runCore ops db) ! i)"
    using assms by (simp add: evolves_def)
  moreover have "i < length (notifications (runCore ops db))"
    using ev assms by (simp add: evolves_def)
  ultimately show ?thesis by (simp add: sameEvent_def)
qed

theorem C9_core_keeps_notifications_witness:
  "0 < length (notifications sampleStore) \<and>
   length (notifications (runCore [DispatchTick failingNotifier 9000, RetentionTick 9500,
       SingleCheck 1 (observed 80 True) 9900] sampleStore)) = 4 \<and>
   sent (notifications (runCore [DispatchTick failingNotifier 9000, RetentionTick 9500,
       SingleCheck 1 (observed 80 True) 9900] sampleStore) ! 0)"
proof -
  have h: "0 < length (notifications sampleStore)" by (simp add: sampleStore_def)
  have s: "sent (notifications sampleStore ! 0)" by (simp add: sampleStore_def)
  have n: "length (notifications (runCore [DispatchTick failingNotifier 9000, RetentionTick 9500,
       SingleCheck 1 (observed 80 True) 9900] sampleStore)) = 4"
    by (simp add: sampleStore_def widget_def observed_def failingNotifier_def
          sendPendingNotifications_def pendingNotifications_def markSent_def
          cleanupOldPriceHistory_def checkSingleProduct_def checkProductPrice_def
          checkTargetPriceNotification_def createNotification_def insertNotification_def
          recentNotifications_def recentPriceHistory_def js_gt_def num_falsy_def Let_def)
  have c: "sent (notifications (runCore [DispatchTick failingNotifier 9000, RetentionTick 9500,
       SingleCheck 1 (observed 80 True) 9900] sampleStore) ! 0)"
    using C9_core_keeps_notifications [OF h, of "[DispatchTick failingNotifier 9000,
       RetentionTick 9500, SingleCheck 1 (observed 80 True) 9900]"] s
    by simp
  show ?thesis
    using h n c by (intro conjI)
qed

lemma cleanupOldNotifications_deletes_sent:
  "notifications (cleanupOldNotifications db) = filter (\<lambda>n. \<not> sent n) (notifications db)"
  by (simp add: cleanupOldNotifications_def)

section \<open>The notification-dispatch run\<close>

lemma snd_processPending: "snd (processPending send t ns (db, a)) = a @ ns"
  by (induction ns arbitrary: db a) (simp_all split: sum.split)

lemma notifications_processPending:
  "notifications (fst (processPending send t ns (db, a))) =
     map (\<lambda>n. if nid n \<in> nid ` set ns then n\<lparr>sent := True, sentAt := Some t\<rparr> else n)
       (notifications db)"
proof (induction ns arbitrary: db a)
  case Nil
  show ?case by simp
next
  case (Cons n ns)
  have "notifications (fst (processPending send t (n # ns) (db, a))) =
        notifications (fst (processPending send t ns (markSent db (nid n) t, a @ [n])))"
    by (simp split: sum.split)
  also have "\<dots> = map (\<lambda>m. if nid m \<in> nid ` set ns then m\<lparr>sent := True, sentAt := Some t\<rparr> else m)
       (notifications (markSent db (nid n) t))"
    by (rule Cons.IH)
  also have "\<dots> = map (\<lambda>m. if nid m \<in> nid ` set (n # ns) then m\<lparr>sent := True, sentAt := Some t\<rparr> else m)
       (notifications db)"
    by (simp add: markSent_def)
  finally show ?case .
qed

lemma nextId_processPending:
  "nextNotificationId (fst (processPending send t ns (db, a))) = nextNotificationId db"
  by (induction ns arbitrary: db a) (simp_all add: markSent_def split: sum.split)

lemma pending_facts:
  "length (pendingNotifications db) \<le> 10"
  "n \<in> set (pendingNotifications db) \<Longrightarrow> \<not> sent n \<and> n \<in> set (notifications db)"
  by (auto simp: pendingNotifications_def dest: in_set_takeD)

lemma notifications_sendPending:
  "notifications (fst (sendPendingNotifications db send t)) =
     map (\<lambda>n. if nid n \<in> nid ` set (pendingNotifications db)
               then n\<lparr>sent := True, sentAt := Some t\<rparr> else n) (notifications db)"
  by (simp add: sendPendingNotifications_def notifications_processPending)

lemma nextId_sendPending:
  "nextNotificationId (fst (sendPendingNotifications db send t)) = nextNotificationId db"
  by (simp add: sendPendingNotifications_def nextId_processPending)

lemma attempted_sendPending:
  "snd (sendPendingNotifications db send t) = pendingNotifications db"
  by (simp add: sendPendingNotifications_def snd_processPending)

lemma sent_after_sendPending:
  "m \<in> set (notifications (fst (sendPendingNotifications db send t))) \<Longrightarrow>
   nid m \<in> nid ` set (pendingNotifications db) \<Longrightarrow> sent m \<and> sentAt m = Some t"
  by (auto simp: notifications_sendPending split: if_splits)

lemma never_pending_again:
  assumes fresh: "\<forall>n \<in> set (notifications db). nid n < nextNotificationId db"
    and later: "n \<in> set (pendingNotifications (runCore ops (fst (sendPendingNotifications db send t))))"
  shows "nid n \<notin> nid ` set (pendingNotifications db)"
proof
  let ?B = "nid ` set (pendingNotifications db)"
  let ?db1 = "fst (sendPendingNotifications db send t)"
  let ?db2 = "runCore ops ?db1"
  assume inB: "nid n \<in> ?B"
  have ev: "evolves ?db1 ?db2" by (rule evolves_runCore)
  from later have n2: "n \<in> set (notifications ?db2)" and unsent: "\<not> sent n"
    using pending_facts(2) by blast+
  then obtain j where j: "j < length (notifications ?db2)" "notifications ?db2 ! j = n"
    by (auto simp: in_set_conv_nth)
  have len1: "length (notifications ?db1) = length (notifications db)"
    by (simp add: notifications_sendPending)
  show False
  proof (cases "j < length (notifications ?db1)")
    case True
    then have same: "sameEvent (notifications ?db1 ! j) n"
      using ev j by (auto simp: evolves_def)
    have "nid (notifications ?db1 ! j) \<in> ?B"
      using same inB by (simp add: sameEvent_def)
    moreover have "notifications ?db1 ! j \<in> set (notifications ?db1)"
      using True by simp
    ultimately have "sent (notifications ?db1 ! j)"
      using sent_after_sendPending by blast
    then show False using same unsent by (simp add: sameEvent_def)
  next
    case False
    then have "nextNotificationId ?db1 \<le> nid n"
      using ev j by (auto simp: evolves_def)
    then have "nextNotificationId db \<le> nid n" by (simp add: nextId_sendPending)
    moreover have "nid n < nextNotificationId db"
      using inB fresh pending_facts(2) by fastforce
    ultimately show False by simp
  qed
qed

text \<open>
  C8: a dispatch run takes at most ten unsent notifications, hands each of them to
  \<open>sendNotification\<close> exactly once and in order, keeps every row, and marks each of the
  batch sent with the time of the run, whatever \<open>sendNotification\<close> returned or
  threw. After any further operations no notification of the batch is pending again.
  Notification ids are taken to be below the next id the store gives out.
\<close>

theorem C8_dispatch_marks_batch_sent:
  assumes fresh: "\<forall>n \<in> set (notifications db). nid n < nextNotificationId db"
  shows "length (pendingNotifications db) \<le> 10 \<and>
         (\<forall>n \<in> set (pendingNotifications db). \<not> sent n \<and> n \<in> set (notifications db)) \<and>
         snd (sendPendingNotifications db send now) = pendingNotifications db \<and>
         map nid (notifications (fst (sendPendingNotifications db send now))) =
           map nid (notifications db) \<and>
         (\<forall>n \<in> set (notifications (fst (sendPendingNotifications db send now))).
            nid n \<in> nid ` set (pendingNotifications db) \<longrightarrow> sent n \<and> sentAt n = Some now) \<and>
         (\<forall>n \<in> set (pendingNotifications
                      (runCore ops (fst (sendPendingNotifications db send now)))).
            nid n \<notin> nid ` set (pendingNotifications db))"
proof -
  have 1: "length (pendingNotifications db) \<le> 10" by (rule pending_facts(1))
  have 2: "\<forall>n \<in> set (pendingNotifications db). \<not> sent n \<and> n \<in> set (notifications db)"
    using pending_facts(2) by blast
  have 3: "snd (sendPendingNotifications db send now) = pendingNotifications db"
    by (rule attempted_sendPending)
  have 4: "map nid (notifications (fst (sendPendingNotifications db send now))) =
           map nid (notifications db)"
    by (simp add: notifications_sendPending comp_def)
  have 5: "\<forall>n \<in> set (notifications (fst (sendPendingNotifications db send now))).
            nid n \<in> nid ` set (pendingNotifications db) \<longrightarrow> sent n \<and> sentAt n = Some now"
    using sent_after_sendPending by blast
  have 6: "\<forall>n \<in> set (pendingNotifications
                      (runCore ops (fst (sendPendingNotifications db send now)))).
            nid n \<notin> nid ` set (pendingNotifications db)"
    using never_pending_again [OF fresh] by blast
  from 1 2 3 4 5 6 show ?thesis by blast
qed

theorem C8_dispatch_marks_batch_sent_witness:
  "list_all (\<lambda>n. nid n < nextNotificationId sampleStore) (notifications sampleStore) \<and>
   map nid (snd (sendPendingNotifications sampleStore failingNotifier 9000)) = [1, 2] \<and>
   map sent (notifications (fst (sendPendingNotifications sampleStore failingNotifier 9000)))
     = [True, True, True] \<and>
   pendingNotifications (runCore [RetentionTick 9500]
       (fst (sendPendingNotifications sampleStore failingNotifier 9000))) = []"
proof -
  have h: "\<forall>n \<in> set (notifications sampleStore). nid n < nextNotificationId sampleStore"
    by (simp add: sampleStore_def)
  have p: "map nid (pendingNotifications sampleStore) = [1, 2]"
    by (simp add: sampleStore_def pendingNotifications_def)
  have e: "map sent (notifications (fst (sendPendingNotifications sampleStore failingNotifier 9000)))
     = [True, True, True]"
    by (simp add: sampleStore_def sendPendingNotifications_def pendingNotifications_def
          failingNotifier_def markSent_def)
  have l: "pendingNotifications (runCore [RetentionTick 9500]
       (fst (sendPendingNotifications sampleStore failingNotifier 9000))) = []"
    by (simp add: sampleStore_def sendPendingNotifications_def pendingNotifications_def
          failingNotifier_def markSent_def cleanupOldPriceHistory_def)
  show ?thesis
    using C8_dispatch_marks_batch_sent [OF h, of failingNotifier 9000 "[RetentionTick 9500]"] h p e l
    by (simp add: list_all_iff)
qed

section \<open>A check that finds no price\<close>

lemma checkProductPrice_null:
  "outcome = Inr r \<Longrightarrow> price r = None \<Longrightarrow> checkProductPrice db product outcome now = db"
  by (simp add: checkProductPrice_def)

lemma checkEach_all_null:
  assumes "\<And>p. p \<in> set ps \<Longrightarrow> \<exists>r. scrape p = Inr r \<and> price r = None"
  shows "checkEach scrape now ps db = db"
  using assms
proof (induction ps arbitrary: db)
  case Nil
  show ?case by simp
next
  case (Cons p ps)
  obtain r where "scrape p = Inr r" "price r = None" using Cons.prems by auto
  then have "checkProductPrice db p (scrape p) now = db" by (rule checkProductPrice_null)
  then show ?case using Cons by simp
qed

lemma scrapeAndCheck_no_price:
  assumes "\<And>u c. renderPage env u c = Inl e1" and "\<And>u c. httpGet env u c = Inl e2"
  shows "scrapeAndCheck env db product now = db"
proof (cases "parseURL env (url product)")
  case (Inl e)
  then show ?thesis by (simp add: scrapeAndCheck_def scrapePrice_def checkProductPrice_def)
next
  case (Inr parsed)
  have "price noMethodWorked = None" by (simp add: noMethodWorked_def)
  then show ?thesis
    using Inr assms
    by (simp add: scrapeAndCheck_def scrapePrice_def scrapeWithPuppeteer_def
          scrapeWithCheerio_def checkProductPrice_null)
qed

text \<open>
  C6: a check whose scrape returns a null price leaves the store as it was: no
  price-history row is added, the product row (current price, last-checked time) is
  untouched, and no notification is created.
\<close>

theorem C6_null_price_leaves_store_unchanged:
  assumes "outcome = Inr r" and "price r = None"
  shows "checkProductPrice db product outcome now = db"
  using assms by (simp add: checkProductPrice_def)

theorem C6_null_price_leaves_store_unchanged_witness:
  "price noPrice = None \<and> checkProductPrice sampleStore widget (Inr noPrice) 7000 = sampleStore"
proof -
  have h: "price noPrice = None" by (simp add: noPrice_def)
  show ?thesis
    using C6_null_price_leaves_store_unchanged [OF refl h, of sampleStore widget 7000] h
    by simp
qed

section \<open>\<open>createAndSendNotification\<close> with \<open>immediate\<close>\<close>

lemma nid_markProduct: "nid (markProduct p t n) = nid n"
  by (simp add: markProduct_def)

lemma markProduct_sent:
  "n_productId (markProduct p t n) = p \<Longrightarrow> sent (markProduct p t n) \<and> sentAt (markProduct p t n) = Some t"
  by (simp add: markProduct_def split: if_splits)

lemma markProduct_other: "n_productId n \<noteq> p \<Longrightarrow> markProduct p t n = n"
  by (simp add: markProduct_def)

lemma markProduct_pid: "n_productId (markProduct p t n) = n_productId n"
  by (simp add: markProduct_def)

lemma filter_markProduct:
  "filter (\<lambda>n. n_productId n \<noteq> p) (map (markProduct p t) xs) = filter (\<lambda>n. n_productId n \<noteq> p) xs"
  by (induction xs) (simp_all add: markProduct_pid markProduct_other)

lemma createAndSend_immediate:
  assumes "send msg ty = Inr ok"
  shows "createAndSendNotification db productId ty msg True send now =
      ((insertNotification db productId ty msg now)\<lparr>notifications :=
          map (markProduct productId now) (notifications (insertNotification db productId ty msg now))\<rparr>, None)"
proof -
  have "(\<lambda>n. if n_productId n = productId then n\<lparr>sent := True, sentAt := Some now\<rparr> else n)
        = markProduct productId now"
    by (rule ext) (simp add: markProduct_def)
  then show ?thesis
    using assms by (simp add: createAndSendNotification_def Let_def)
qed

text \<open>
  C10: when \<open>createAndSendNotification\<close> is called with \<open>immediate = true\<close> and
  \<open>sendNotification\<close> returns, the function inserts one row and then marks as sent, with
  the time of the call, every notification of that product, the rows created earlier
  included; the notifications of other products are left as they were.
\<close>

theorem C10_immediate_marks_all_of_product:
  assumes "send msg ty = Inr ok"
  shows "snd (createAndSendNotification db productId ty msg True send now) = None \<and>
         map nid (notifications (fst (createAndSendNotification db productId ty msg True send now)))
           = map nid (notifications db) @ [nextNotificationId db] \<and>
         (\<forall>n \<in> set (notifications (fst (createAndSendNotification db productId ty msg True send now))).
            n_productId n = productId \<longrightarrow> sent n \<and> sentAt n = Some now) \<and>
         filter (\<lambda>n. n_productId n \<noteq> productId)
           (notifications (fst (createAndSendNotification db productId ty msg True send now)))
           = filter (\<lambda>n. n_productId n \<noteq> productId) (notifications db)"
proof -
  let ?db1 = "insertNotification db productId ty msg now"
  let ?res = "createAndSendNotification db productId ty msg True send now"
  have n': "notifications (fst ?res) = map (markProduct productId now) (notifications ?db1)"
    using createAndSend_immediate [of send msg ty ok db productId now] assms by simp
  have s': "snd ?res = None"
    using createAndSend_immediate [of send msg ty ok db productId now] assms by simp
  have ids: "map nid (notifications (fst ?res)) = map nid (notifications db) @ [nextNotificationId db]"
    unfolding n' by (simp add: nid_markProduct comp_def insertNotification_def)
  have marked: "\<forall>n \<in> set (notifications (fst ?res)).
            n_productId n = productId \<longrightarrow> sent n \<and> sentAt n = Some now"
    unfolding n' using markProduct_sent by auto
  have others: "filter (\<lambda>n. n_productId n \<noteq> productId) (notifications (fst ?res))
           = filter (\<lambda>n. n_productId n \<noteq> productId) (notifications db)"
    unfolding n' filter_markProduct by (simp add: insertNotification_def)
  from s' ids marked others show ?thesis by (intro conjI)
qed

theorem C10_immediate_marks_all_of_product_witness:
  "failingNotifier (Custom ''hello'') price_drop = Inr False \<and>
   map sent (notifications (fst (createAndSendNotification sampleStore 1 price_drop
       (Custom ''hello'') True failingNotifier 8000))) = [True, True, False, True] \<and>
   map sentAt (notifications (fst (createAndSendNotification sampleStore 1 price_drop
       (Custom ''hello'') True failingNotifier 8000))) = [Some 8000, Some 8000, None, Some 8000]"
proof -
  have h: "failingNotifier (Custom ''hello'') price_drop = Inr False"
    by (simp add: failingNotifier_def)
  have e: "notifications (fst (createAndSendNotification sampleStore 1 price_drop
       (Custom ''hello'') True failingNotifier 8000)) =
       map (markProduct 1 8000) (notifications (insertNotification sampleStore 1 price_drop
          (Custom ''hello'') 8000))"
    using createAndSend_immediate [of failingNotifier "Custom ''hello''" price_drop False
        sampleStore 1 8000] h by simp
  have t: "snd (createAndSendNotification sampleStore 1 price_drop
       (Custom ''hello'') True failingNotifier 8000) = None"
    using C10_immediate_marks_all_of_product [of failingNotifier "Custom ''hello''" price_drop
        False sampleStore 1 8000] h
    by simp
  have v: "notifications (fst (createAndSendNotification sampleStore 1 price_drop
       (Custom ''hello'') True failingNotifier 8000)) =
       map (markProduct 1 8000) (notifications sampleStore @
         [\<lparr>nid = 3, n_productId = 1, ntype = price_drop, message = Custom ''hello'',
           sent = False, sentAt = None, createdAt = 8000\<rparr>])"
    unfolding e by (simp add: insertNotification_def sampleStore_def)
  show ?thesis
    using t h unfolding v by (simp add: sampleStore_def markProduct_def)
qed

section \<open>The target-price notification\<close>

lemmas eval_defs = checkSingleProduct_def checkProductPrice_def checkTargetPriceNotification_def
  createNotification_def insertNotification_def recentNotifications_def recentPriceHistory_def
  js_gt_def js_le_def num_falsy_def Let_def










lemma recentPriceHistory_window:
  assumes "length (filter (\<lambda>h. h_productId h = p \<and> t < scrapedAt h) (priceHistory db)) \<le> 10"
  shows "list_ex P (recentPriceHistory db p t) \<longleftrightarrow>
         (\<exists>h \<in> set (priceHistory db). h_productId h = p \<and> t < scrapedAt h \<and> P h)"
proof -
  define xs where "xs = filter (\<lambda>h. h_productId h = p \<and> t < scrapedAt h) (priceHistory db)"
  have "length (rev (sort_key scrapedAt xs)) \<le> 10" using assms by (simp add: xs_def)
  then have "take 10 (rev (sort_key scrapedAt xs)) = rev (sort_key scrapedAt xs)" by simp
  then have "set (recentPriceHistory db p t) = set xs"
    by (simp add: recentPriceHistory_def xs_def)
  then show ?thesis by (auto simp: list_ex_iff xs_def)
qed






section \<open>Stock notifications\<close>

lemma out_of_stock_notice_on_every_unavailable_check:
  assumes "currentPrice product = Some c" and "price r = Some p" and "\<not> isAvailable r"
  shows "last (notifications (checkProductPrice db product (Inr r) now)) =
           \<lparr>nid = nextNotificationId (checkProductPrice db product (Inr r) now) - 1,
             n_productId = pid product, ntype = back_in_stock,
             message = CurrentlyOutOfStock (name product), sent = False, sentAt = None,
             createdAt = now\<rparr>"
  using assms
  by (simp add: checkProductPrice_def Let_def createNotification_def insertNotification_def)

text \<open>
  C7 fails on the code. The gadget is in stock at 100. Three checks find it unavailable,
  unavailable again, and available: the second check repeats the out-of-stock notice
  although availability did not change, and the third creates no restock notice although
  availability flipped back.
\<close>

theorem C7_stock_notices_follow_level:
  "map (\<lambda>n. (message n, createdAt n))
     (notifications (runCore [SingleCheck 2 (observed 100 False) 1000,
        SingleCheck 2 (observed 100 False) 2000, SingleCheck 2 (observed 100 True) 3000]
        gadgetStore))
   = [(CurrentlyOutOfStock ''Gadget'', 1000), (CurrentlyOutOfStock ''Gadget'', 2000)]"
  by (simp add: gadgetStore_def gadget_def observed_def eval_defs)

section \<open>The selector strategy\<close>

lemma firstValid_Nil: "firstValid [] = None"
  by (simp add: firstValid_def)

lemma firstValid_append:
  "firstValid (xs @ ys) = (case firstValid xs of Some n \<Rightarrow> Some n | None \<Rightarrow> firstValid ys)"
  by (induction xs) (simp_all add: firstValid_def)

lemma scanMatches_firstValid: "scanMatches ms = firstValid ms"
  by (induction ms) (simp_all add: firstValid_def)

lemma scanPatterns_firstValid:
  "scanPatterns patterns text = firstValid (concat (map (\<lambda>pattern. allMatches pattern text) patterns))"
  by (induction patterns)
     (simp_all add: firstValid_Nil firstValid_append scanMatches_firstValid split: option.split)

lemma scanElements_firstValid: "scanElements texts = firstValid (spec_candidates texts)"
  by (induction texts)
     (simp_all add: spec_candidates_def pricePatterns_def firstValid_Nil firstValid_append
        scanMatches_firstValid split: option.split)

lemma scanElements_pattern_order:
  "scanElements (element # elements) =
     (case firstValid (allMatches dollarPrefixed (trim element)) of
        Some v \<Rightarrow> Some v
      | None \<Rightarrow>
          (case firstValid (allMatches dollarSuffixed (trim element)) of
             Some v \<Rightarrow> Some v
           | None \<Rightarrow>
               (case firstValid (allMatches currencyPrefixed (trim element)) of
                  Some v \<Rightarrow> Some v
                | None \<Rightarrow>
                    (case firstValid (allMatches bareNumber (trim element)) of
                       Some v \<Rightarrow> Some v
                     | None \<Rightarrow> scanElements elements))))"
  by (simp add: pricePatterns_def scanMatches_firstValid split: option.split)

lemma validPrice_iff: "validPrice n \<longleftrightarrow> (\<exists>r. n = Fin r \<and> 0 < r \<and> r < 1000000)"
  by (cases n) (auto simp: validPrice_def js_gt_def)

lemmas string_defs = isDigit_def isSpace_def isNumChar_def digitValue_def digitsValue_def
  toLowerChar_def toLowerCase_def trim_def pow10_def exponentOf_def unsignedLiteral_def
  negate_def parseFloat_def numberBody_def dollarPrefixed_def dollarSuffixed_def
  currencyPrefixed_def bareNumber_def pricePatterns_def candidateValue_def validPrice_def
  js_gt_def Let_def allMatches.simps

lemma candidate_thousands: "candidateValue ''1,237.00'' = Fin 1237"
  by (simp add: string_defs)

lemma sample_matches:
  "allMatches dollarPrefixed sampleText = [''$1,499.00'']"
  "allMatches dollarSuffixed sampleText = [''1,237.00 $'']"
  "allMatches currencyPrefixed sampleText = [''AUD 1,237.50'']"
  "allMatches bareNumber sampleText = [''1,499.00'', '','', ''1,237.00'', ''1,237.50'']"
  by (simp_all add: sampleText_def string_defs)

lemma pattern_matches:
  "allMatches dollarPrefixed ''$ 5 $,6. $7.5.2'' = [''$,6.'', ''$7.5'']"
  "allMatches dollarSuffixed ''7$ 8  $ 9'' = [''7$'', ''8  $'']"
  "allMatches currencyPrefixed ''au9 Aud  3.5 A 4'' = [''au9'', ''Aud  3.5'']"
  by (simp_all add: string_defs)

lemma sample_values:
  "map candidateValue [''$1,499.00'', ''1,237.00 $'', ''AUD 1,237.50'', '','']
     = [Fin 1499, Fin 1237, Fin (2475 / 2), NaN]"
  by (simp add: string_defs)

lemma scan_example:
  "scanElements [''$0.00'', ''Only $2,000,000'', '' AUD 45.50 ''] = Some (Fin (91 / 2))"
  by (simp add: string_defs)

lemma scan_prefixed_before_suffixed: "scanElements [''7$ or $5''] = Some (Fin 5)"
  by (simp add: string_defs)

lemma scan_suffixed_before_currency: "scanElements [''AUD 12 then 7$''] = Some (Fin 7)"
  by (simp add: string_defs)

lemma scan_currency_before_bare: "scanElements [''3 for AUD 12''] = Some (Fin 12)"
  by (simp add: string_defs)

lemma scan_prefixed_before_bare: "scanElements [''12 or $5''] = Some (Fin 5)"
  by (simp add: string_defs)

lemma scan_rejected_then_next_pattern:
  "scanElements [''AUD 12,5 then 7$ and $0''] = Some (Fin 7)"
  by (simp add: string_defs)

text \<open>
  C3: the selector strategy returns the value of the first candidate match that is a
  valid price, the candidates taken element by element, within an element in the order
  \<open>$\<close>-prefixed, \<open>$\<close>-suffixed, currency-code-prefixed, bare number, and within
  a pattern match by match; for one element this is the cascade through the four patterns
  in that order, and only when none of them has a valid match does the scan go on to the
  next element. The value of a match is what \<open>parseFloat\<close> reads once everything
  but digits and dots is removed, so \<open>1,237.00\<close> gives 1237; a value is valid exactly
  when it is a finite number strictly between 0 and 1000000. On the sample text each
  pattern finds its own matches; the \<open>$\<close> sign must touch the number it precedes and
  may be separated by spaces from the number it follows, and the currency code is
  \<open>AU\<close> or \<open>AUD\<close> in any letter case, with or without spaces before the number. Candidates that are not valid are passed over: 0.00 and
  2,000,000 are skipped for the 45.50 of a later element, and the \<open>$0\<close> of the first
  pattern for the \<open>7$\<close> of the second. Each pattern wins over the ones after it:
  \<open>$5\<close> over \<open>7$\<close>, \<open>7$\<close> over \<open>AUD 12\<close>, \<open>AUD 12\<close> over the bare 3.
\<close>

theorem C3_selector_strategy:
  "scanElements texts = List.find validPrice (map candidateValue (spec_candidates texts)) \<and>
   scanElements [] = None \<and>
   scanElements (element # elements) =
     (case List.find validPrice (map candidateValue (allMatches dollarPrefixed (trim element))) of
        Some v \<Rightarrow> Some v
      | None \<Rightarrow>
          (case List.find validPrice
                  (map candidateValue (allMatches dollarSuffixed (trim element))) of
             Some v \<Rightarrow> Some v
           | None \<Rightarrow>
               (case List.find validPrice
                       (map candidateValue (allMatches currencyPrefixed (trim element))) of
                  Some v \<Rightarrow> Some v
                | None \<Rightarrow>
                    (case List.find validPrice
                            (map candidateValue (allMatches bareNumber (trim element))) of
                       Some v \<Rightarrow> Some v
                     | None \<Rightarrow> scanElements elements)))) \<and>
   (validPrice n \<longleftrightarrow> (\<exists>r. n = Fin r \<and> 0 < r \<and> r < 1000000)) \<and>
   candidateValue ''1,237.00'' = Fin 1237 \<and>
   selectorStep doc (None, c) = (scanElements (priceElements doc), c) \<and>
   allMatches dollarPrefixed sampleText = [''$1,499.00''] \<and>
   allMatches dollarSuffixed sampleText = [''1,237.00 $''] \<and>
   allMatches currencyPrefixed sampleText = [''AUD 1,237.50''] \<and>
   allMatches bareNumber sampleText = [''1,499.00'', '','', ''1,237.00'', ''1,237.50''] \<and>
   allMatches dollarPrefixed ''$ 5 $,6. $7.5.2'' = [''$,6.'', ''$7.5''] \<and>
   allMatches dollarSuffixed ''7$ 8  $ 9'' = [''7$'', ''8  $''] \<and>
   allMatches currencyPrefixed ''au9 Aud  3.5 A 4'' = [''au9'', ''Aud  3.5''] \<and>
   map candidateValue [''$1,499.00'', ''1,237.00 $'', ''AUD 1,237.50'', '','']
     = [Fin 1499, Fin 1237, Fin (2475 / 2), NaN] \<and>
   scanElements [''$0.00'', ''Only $2,000,000'', '' AUD 45.50 ''] = Some (Fin (91 / 2)) \<and>
   scanElements [''AUD 12,5 then 7$ and $0''] = Some (Fin 7) \<and>
   scanElements [''7$ or $5''] = Some (Fin 5) \<and>
   scanElements [''AUD 12 then 7$''] = Some (Fin 7) \<and>
   scanElements [''3 for AUD 12''] = Some (Fin 12) \<and>
   scanElements [''12 or $5''] = Some (Fin 5)"
proof -
  have flat: "scanElements texts
      = List.find validPrice (map candidateValue (spec_candidates texts))"
    using scanElements_firstValid [of texts] by (simp add: firstValid_def)
  have cascade: "scanElements (element # elements) =
     (case List.find validPrice (map candidateValue (allMatches dollarPrefixed (trim element))) of
        Some v \<Rightarrow> Some v
      | None \<Rightarrow>
          (case List.find validPrice
                  (map candidateValue (allMatches dollarSuffixed (trim element))) of
             Some v \<Rightarrow> Some v
           | None \<Rightarrow>
               (case List.find validPrice
                       (map candidateValue (allMatches currencyPrefixed (trim element))) of
                  Some v \<Rightarrow> Some v
                | None \<Rightarrow>
                    (case List.find validPrice
                            (map candidateValue (allMatches bareNumber (trim element))) of
                       Some v \<Rightarrow> Some v
                     | None \<Rightarrow> scanElements elements))))"
    using scanElements_pattern_order [of element elements] by (simp only: firstValid_def)
  have step: "selectorStep doc (None, c) = (scanElements (priceElements doc), c)"
    by (simp add: selectorStep_def)
  have nil: "scanElements [] = None" by simp
  from flat nil cascade validPrice_iff [of n] candidate_thousands step sample_matches
    pattern_matches sample_values scan_example scan_rejected_then_next_pattern scan_prefixed_before_suffixed
    scan_suffixed_before_currency scan_currency_before_bare scan_prefixed_before_bare
  show ?thesis by (intro conjI)
qed

section \<open>The order of the extraction strategies\<close>

lemma jsonLdLoop_firstSome:
  "jsonLdLoop finder blocks (None, JString ''AUD'') =
     (case firstSome (map (blockYield finder) blocks) of
        Some (n, c) \<Rightarrow> (Some n, c)
      | None \<Rightarrow> (None, JString ''AUD''))"
  by (induction blocks)
     (simp_all add: blockYield_def split: option.split sum.split)

lemma extractPrice_firstStrategy:
  "extractPrice finder doc =
     (case spec_firstStrategy finder doc of
        Some (n, c) \<Rightarrow> (Some n, c)
      | None \<Rightarrow> (None, JString ''AUD''))"
proof (cases "spec_structuredData finder doc")
  case (Some nc)
  obtain n c where nc: "nc = (n, c)" by (cases nc)
  have "jsonLdLoop finder (jsonLdBlocks doc) (None, JString ''AUD'') = (Some n, c)"
    using Some nc by (simp add: jsonLdLoop_firstSome spec_structuredData_def)
  then show ?thesis
    using Some nc
    by (simp add: extractPrice_def metaStep_def selectorStep_def spec_firstStrategy_def)
next
  case None
  have l: "jsonLdLoop finder (jsonLdBlocks doc) (None, JString ''AUD'') = (None, JString ''AUD'')"
    using None by (simp add: jsonLdLoop_firstSome spec_structuredData_def)
  show ?thesis
  proof (cases "spec_metaTags doc")
    case (Some nc)
    obtain n c where nc: "nc = (n, c)" by (cases nc)
    have "metaStep doc (None, JString ''AUD'') = (Some n, c)"
      using Some nc
      by (auto simp: metaStep_def spec_metaTags_def Let_def split: option.splits if_splits)
    then show ?thesis
      using Some nc None
      by (simp add: extractPrice_def l selectorStep_def spec_firstStrategy_def)
  next
    case nm: None
    have "metaStep doc (None, JString ''AUD'') = (None, JString ''AUD'')"
      using nm
      by (auto simp: metaStep_def spec_metaTags_def Let_def split: option.splits if_splits)
    then show ?thesis
      using nm None
      by (cases "scanElements (priceElements doc)")
         (simp_all add: extractPrice_def l selectorStep_def spec_firstStrategy_def spec_selector_def)
  qed
qed

lemma structured_first:
  assumes "spec_structuredData finder doc = Some (n, c)"
    and "jsonLdBlocks doc' = jsonLdBlocks doc"
  shows "extractPrice finder doc' = (Some n, c)"
proof -
  have "spec_structuredData finder doc' = Some (n, c)"
    using assms by (simp add: spec_structuredData_def)
  then show ?thesis
    by (simp add: extractPrice_firstStrategy spec_firstStrategy_def)
qed

lemma firstSome_append:
  "(\<forall>x \<in> set xs. x = None) \<Longrightarrow> firstSome (xs @ ys) = firstSome ys"
  by (induction xs) simp_all

lemma first_yielding_block:
  assumes "jsonLdBlocks doc = earlierBlocks @ block # laterBlocks"
    and "\<forall>b \<in> set earlierBlocks. blockYield finder b = None"
    and "blockYield finder block = Some (n, c)"
  shows "extractPrice finder doc = (Some n, c)"
proof -
  have "firstSome (map (blockYield finder) earlierBlocks
          @ map (blockYield finder) (block # laterBlocks)) = Some (n, c)"
    using assms(2,3) by (subst firstSome_append) simp_all
  then have "spec_structuredData finder doc = Some (n, c)"
    by (simp add: spec_structuredData_def assms(1))
  then show ?thesis by (rule structured_first) simp
qed

lemma firstPricedOffer_append:
  assumes "\<forall>x \<in> set pre. x \<noteq> JNull \<and> \<not> truthy (getProp x ''price'') \<and> \<not> truthy (getProp x ''lowPrice'')"
  shows "firstPricedOffer (pre @ rest) = firstPricedOffer rest"
  using assms by (induction pre) simp_all

lemma isProductType_object: "isProductType j \<Longrightarrow> \<exists>ms. j = JObject ms"
  by (cases j) (simp_all add: isProductType_def getProp_def)

lemma truthy_prop_object: "truthy (getProp v k) \<Longrightarrow> \<exists>ms. v = JObject ms"
  by (cases v) (simp_all add: truthy_def getProp_def)

lemma product_offer_found:
  assumes ty: "isProductType j"
    and offers: "getProp j ''offers'' = Some offers"
    and split: "offerArray offers = pre @ offer # post"
    and pre: "\<forall>x \<in> set pre. x \<noteq> JNull \<and> \<not> truthy (getProp x ''price'') \<and> \<not> truthy (getProp x ''lowPrice'')"
    and priced: "truthy (getProp offer ''price'') \<or> truthy (getProp offer ''lowPrice'')"
  shows "findProductInJsonLd j = Inr (Some (offerSummary j offer))"
proof -
  obtain ms where j: "j = JObject ms" using ty isProductType_object by blast
  obtain oms where off: "offer = JObject oms" using priced truthy_prop_object by blast
  have nn: "offer \<noteq> JNull" using off by simp
  have tr: "js_truthy offers"
  proof (cases offers)
    case (JArray xs)
    then show ?thesis by (simp add: js_truthy_def)
  next
    case (JObject x)
    then show ?thesis by (simp add: js_truthy_def)
  qed (use split off in \<open>auto simp: offerArray_def Cons_eq_append_conv\<close>)
  have "firstPricedOffer (offerArray offers) = Inr (Some offer)"
    unfolding split firstPricedOffer_append [OF pre] using priced nn by simp
  then have "productSummary j = Inr (Some (offerSummary j offer))"
    using ty offers tr by (simp add: productSummary_def)
  then show ?thesis
    by (subst findProductInJsonLd.simps) (simp add: j js_truthy_def)
qed

lemma offerSummary_price:
  assumes "orElse (getProp offer ''price'') (getProp offer ''lowPrice'') = Some p"
  shows "getProp (offerSummary j offer) ''price'' = Some p"
    and "getProp (offerSummary j offer) ''currency'' = Some (offerCurrency offer)"
    and "js_truthy (offerCurrency offer)"
  using assms
  by (auto simp: offerSummary_def getProp_def optMember_def orElse_def offerCurrency_def truthy_def
        js_truthy_def split: option.splits if_splits)

lemma product_offer_yield:
  assumes "isProductType j"
    and "getProp j ''offers'' = Some offers"
    and "offerArray offers = pre @ offer # post"
    and "\<forall>x \<in> set pre. x \<noteq> JNull \<and> \<not> truthy (getProp x ''price'') \<and> \<not> truthy (getProp x ''lowPrice'')"
    and "orElse (getProp offer ''price'') (getProp offer ''lowPrice'') = Some p"
    and "js_truthy p"
  shows "blockYield findProductInJsonLd (Some j) = Some (parseFloatJson p, offerCurrency offer)"
proof -
  have priced: "truthy (getProp offer ''price'') \<or> truthy (getProp offer ''lowPrice'')"
    using assms(5,6) by (auto simp: orElse_def truthy_def split: if_splits)
  have f: "findProductInJsonLd j = Inr (Some (offerSummary j offer))"
    by (rule product_offer_found [OF assms(1-4) priced])
  show ?thesis
    using offerSummary_price(1,2) [OF assms(5), of j] offerSummary_price(3) [OF assms(5)] assms(6)
    by (simp add: blockYield_def f)
qed

lemma findInItems_append:
  assumes "\<forall>x \<in> set pre. findProductInJsonLd x = Inr None"
  shows "findInItems (pre @ rest) = findInItems rest"
  using assms by (induction pre) simp_all

lemma found_in_array:
  assumes "\<forall>x \<in> set pre. findProductInJsonLd x = Inr None"
    and "findProductInJsonLd item = Inr (Some s)"
  shows "findProductInJsonLd (JArray (pre @ item # post)) = Inr (Some s)"
proof -
  have "findInItems (pre @ item # post) = Inr (Some s)"
    unfolding findInItems_append [OF assms(1)] using assms(2) by simp
  then show ?thesis
    by (subst findProductInJsonLd.simps) (simp add: js_truthy_def)
qed

lemma found_under_graph:
  assumes "productSummary (JObject ms) = Inr None"
    and "map_of ms ''@graph'' = Some graph"
    and "js_truthy graph"
  shows "findProductInJsonLd (JObject ms) = findProductInJsonLd graph"
  using assms by (subst findProductInJsonLd.simps) (simp add: js_truthy_def)

lemmas json_defs = js_truthy_def getProp_def truthy_def orElse_def isObject_def isProductType_def
  offerArray_def optMember_def offerSummary_def directSummary_def productSummary_def
  findProductInJsonLd.simps findProductInBrowser.simps productJson_def

lemmas page_defs = extractStatic_def extractRendered_def extractPrice_def metaStep_def
  selectorStep_def ogPriceAmount_def ogPriceCurrency_def classify_def hasActiveAddToCart_def
  unavailableIndicators_def productAreaText_def findProductInJsonLd_inPage_def emptyPage_def

lemma graphPage_static:
  "extractStatic graphPage =
     \<lparr>price = Some (Fin (1999 / 100)), currency = JString ''USD'', isAvailable = True,
      error = None\<rparr>"
  by (simp add: graphPage_def page_defs json_defs string_defs)

lemma graphPage_rendered:
  "extractRendered graphPage =
     \<lparr>price = Some (Fin 25), currency = JString ''AUD'', isAvailable = True, error = None\<rparr>"
  by (simp add: graphPage_def page_defs json_defs string_defs)

lemma outOfStock_static: "isAvailable (extractStatic outOfStockPage) = True"
  by (simp add: outOfStockPage_def page_defs json_defs string_defs)

lemma outOfStock_rendered: "isAvailable (extractRendered outOfStockPage) = False"
  by (simp add: outOfStockPage_def page_defs json_defs string_defs)

lemma negative_static:
  "extractStatic negativePricePage =
     \<lparr>price = Some (Fin (- 5)), currency = JString ''USD'', isAvailable = True, error = None\<rparr>"
  by (simp add: negativePricePage_def page_defs json_defs string_defs)

lemma negative_meta: "spec_metaTags negativePricePage = Some (Fin 25, JString ''AUD'')"
  by (simp add: negativePricePage_def spec_metaTags_def ogPriceAmount_def ogPriceCurrency_def string_defs)

text \<open>
  C2, as amended, for the static pipeline (\<open>scrapeWithCheerio\<close>). The result is that
  of the first strategy, in the order structured data, meta tags, selector, that accepts
  a price by its own test: structured data accepts any truthy price value and applies no
  bounds, meta tags accept a number above 0, the selector strategy a number strictly
  between 0 and 1000000. Once structured data has given a price the result does not
  depend on the meta tags or the price elements. The structured-data strategy takes the
  first script block that parses and in which \<open>findProductInJsonLd\<close> finds a product
  without throwing. For an object typed \<open>Product\<close>, \<open>findProductInJsonLd\<close> takes
  the first offer whose price or lowPrice is truthy, provided no offer before it is
  \<open>null\<close>; the block then yields what \<open>parseFloat\<close> reads from that value, and
  the offer's priceCurrency, or AUD when it has none. An array is searched in order, and
  an object that yields no product itself is searched through its truthy \<open>@graph\<close>.
\<close>

theorem C2_extraction_order:
  "extractPrice finder doc =
     (case spec_firstStrategy finder doc of
        Some (n, c) \<Rightarrow> (Some n, c)
      | None \<Rightarrow> (None, JString ''AUD'')) \<and>
   price (extractStatic doc) = fst (extractPrice findProductInJsonLd doc) \<and>
   currency (extractStatic doc) = snd (extractPrice findProductInJsonLd doc) \<and>
   (spec_structuredData finder doc = Some (n, c) \<and> jsonLdBlocks doc' = jsonLdBlocks doc
      \<longrightarrow> extractPrice finder doc' = (Some n, c)) \<and>
   (jsonLdBlocks doc = earlierBlocks @ block # laterBlocks \<and>
    (\<forall>b \<in> set earlierBlocks. blockYield finder b = None) \<and>
    blockYield finder block = Some (n, c)
      \<longrightarrow> extractPrice finder doc = (Some n, c)) \<and>
   (isProductType j \<and> getProp j ''offers'' = Some offers \<and>
    offerArray offers = before @ offer # after \<and>
    (\<forall>x \<in> set before. x \<noteq> JNull \<and> \<not> truthy (getProp x ''price'')
                           \<and> \<not> truthy (getProp x ''lowPrice'')) \<and>
    orElse (getProp offer ''price'') (getProp offer ''lowPrice'') = Some p \<and> js_truthy p
      \<longrightarrow> blockYield findProductInJsonLd (Some j)
            = Some (parseFloatJson p, offerCurrency offer)) \<and>
   ((\<forall>x \<in> set earlier. findProductInJsonLd x = Inr None) \<and>
    findProductInJsonLd item = Inr (Some s)
      \<longrightarrow> findProductInJsonLd (JArray (earlier @ item # later)) = Inr (Some s)) \<and>
   (productSummary (JObject ms) = Inr None \<and> map_of ms ''@graph'' = Some graph \<and>
    js_truthy graph
      \<longrightarrow> findProductInJsonLd (JObject ms) = findProductInJsonLd graph)"
proof -
  have 1: "extractPrice finder doc =
     (case spec_firstStrategy finder doc of
        Some (n, c) \<Rightarrow> (Some n, c)
      | None \<Rightarrow> (None, JString ''AUD''))"
    by (rule extractPrice_firstStrategy)
  have 2: "price (extractStatic doc) = fst (extractPrice findProductInJsonLd doc)"
    and 3: "currency (extractStatic doc) = snd (extractPrice findProductInJsonLd doc)"
    by (simp_all add: extractStatic_def)
  have 4: "spec_structuredData finder doc = Some (n, c) \<and> jsonLdBlocks doc' = jsonLdBlocks doc
      \<longrightarrow> extractPrice finder doc' = (Some n, c)"
    using structured_first by blast
  have 8: "jsonLdBlocks doc = earlierBlocks @ block # laterBlocks \<and>
    (\<forall>b \<in> set earlierBlocks. blockYield finder b = None) \<and>
    blockYield finder block = Some (n, c)
      \<longrightarrow> extractPrice finder doc = (Some n, c)"
    using first_yielding_block by blast
  have 5: "isProductType j \<and> getProp j ''offers'' = Some offers \<and>
    offerArray offers = before @ offer # after \<and>
    (\<forall>x \<in> set before. x \<noteq> JNull \<and> \<not> truthy (getProp x ''price'')
                           \<and> \<not> truthy (getProp x ''lowPrice'')) \<and>
    orElse (getProp offer ''price'') (getProp offer ''lowPrice'') = Some p \<and> js_truthy p
      \<longrightarrow> blockYield findProductInJsonLd (Some j)
            = Some (parseFloatJson p, offerCurrency offer)"
    using product_offer_yield by blast
  have 6: "(\<forall>x \<in> set earlier. findProductInJsonLd x = Inr None) \<and>
    findProductInJsonLd item = Inr (Some s)
      \<longrightarrow> findProductInJsonLd (JArray (earlier @ item # later)) = Inr (Some s)"
    using found_in_array by blast
  have 7: "productSummary (JObject ms) = Inr None \<and> map_of ms ''@graph'' = Some graph \<and>
    js_truthy graph
      \<longrightarrow> findProductInJsonLd (JObject ms) = findProductInJsonLd graph"
    using found_under_graph by blast
  from 1 2 3 4 8 5 6 7 show ?thesis by (intro conjI)
qed

theorem C2_extraction_order_witness:
  "spec_structuredData findProductInJsonLd graphPage = Some (Fin (1999 / 100), JString ''USD'') \<and>
   extractPrice findProductInJsonLd (graphPage\<lparr>metaContent := (\<lambda>tag. None), priceElements := []\<rparr>)
     = (Some (Fin (1999 / 100)), JString ''USD'') \<and>
   jsonLdBlocks graphPage = [None] @ hd (tl (jsonLdBlocks graphPage)) # [] \<and>
   blockYield findProductInJsonLd None = None \<and>
   extractPrice findProductInJsonLd graphPage = (Some (Fin (1999 / 100)), JString ''USD'') \<and>
   isProductType widgetJson \<and>
   blockYield findProductInJsonLd (Some widgetJson) = Some (Fin (1999 / 100), JString ''USD'') \<and>
   findProductInJsonLd (JObject [(''@type'', JString ''WebSite'')]) = Inr None \<and>
   findProductInJsonLd (JArray [JObject [(''@type'', JString ''WebSite'')], widgetJson])
     = findProductInJsonLd widgetJson \<and>
   findProductInJsonLd (JObject [(''@graph'', JArray [widgetJson])])
     = findProductInJsonLd (JArray [widgetJson])"
proof -
  let ?offer = "JObject [(''@type'', JString ''Offer''), (''price'', JString ''19.99''),
                        (''priceCurrency'', JString ''USD''),
                        (''availability'', JString ''https://schema.org/InStock'')]"
  let ?site = "JObject [(''@type'', JString ''WebSite'')]"
  note inst = C2_extraction_order [where finder = findProductInJsonLd and doc = graphPage
      and n = "Fin (1999 / 100)" and c = "JString ''USD''"
      and doc' = "graphPage\<lparr>metaContent := (\<lambda>tag. None), priceElements := []\<rparr>"
      and j = widgetJson and offers = ?offer and before = "[]" and offer = ?offer and after = "[]"
      and p = "JString ''19.99''"
      and earlier = "[?site]" and item = widgetJson and later = "[]"
      and s = "offerSummary widgetJson ?offer"
      and ms = "[(''@graph'', JArray [widgetJson])]" and graph = "JArray [widgetJson]"
      and earlierBlocks = "[None]" and block = "hd (tl (jsonLdBlocks graphPage))"
      and laterBlocks = "[]"]
  note independent = inst [THEN conjunct2, THEN conjunct2, THEN conjunct2, THEN conjunct1]
  note firstBlock = inst [THEN conjunct2, THEN conjunct2, THEN conjunct2, THEN conjunct2,
      THEN conjunct1]
  note offerYield = inst [THEN conjunct2, THEN conjunct2, THEN conjunct2, THEN conjunct2,
      THEN conjunct2, THEN conjunct1]
  note inArray = inst [THEN conjunct2, THEN conjunct2, THEN conjunct2, THEN conjunct2,
      THEN conjunct2, THEN conjunct2, THEN conjunct1]
  note underGraph = inst [THEN conjunct2, THEN conjunct2, THEN conjunct2, THEN conjunct2,
      THEN conjunct2, THEN conjunct2, THEN conjunct2]
  have a: "spec_structuredData findProductInJsonLd graphPage = Some (Fin (1999 / 100), JString ''USD'')"
    by (simp add: spec_structuredData_def blockYield_def graphPage_def json_defs string_defs)
  have b: "isProductType widgetJson" "getProp widgetJson ''offers'' = Some ?offer"
    "offerArray ?offer = [] @ ?offer # []"
    "orElse (getProp ?offer ''price'') (getProp ?offer ''lowPrice'') = Some (JString ''19.99'')"
    "js_truthy (JString ''19.99'')"
    by (simp_all add: widgetJson_def json_defs)
  have v: "parseFloatJson (JString ''19.99'') = Fin (1999 / 100)" "offerCurrency ?offer = JString ''USD''"
    by (simp_all add: offerCurrency_def json_defs string_defs)
  have site: "findProductInJsonLd ?site = Inr None"
    by (simp add: json_defs)
  have w: "findProductInJsonLd widgetJson = Inr (Some (offerSummary widgetJson ?offer))"
    by (simp add: widgetJson_def json_defs)
  have g: "productSummary (JObject [(''@graph'', JArray [widgetJson])]) = Inr None"
    "map_of [(''@graph'', JArray [widgetJson])] ''@graph'' = Some (JArray [widgetJson])"
    "js_truthy (JArray [widgetJson])"
    by (simp_all add: json_defs)
  have 1: "extractPrice findProductInJsonLd (graphPage\<lparr>metaContent := (\<lambda>tag. None), priceElements := []\<rparr>)
     = (Some (Fin (1999 / 100)), JString ''USD'')"
    using independent a by simp
  have k: "jsonLdBlocks graphPage = [None] @ hd (tl (jsonLdBlocks graphPage)) # []"
    by (simp add: graphPage_def)
  have y0: "blockYield findProductInJsonLd None = None"
    by (simp add: blockYield_def)
  have y1: "blockYield findProductInJsonLd (hd (tl (jsonLdBlocks graphPage)))
      = Some (Fin (1999 / 100), JString ''USD'')"
    by (simp add: blockYield_def graphPage_def json_defs string_defs)
  have 5: "extractPrice findProductInJsonLd graphPage = (Some (Fin (1999 / 100)), JString ''USD'')"
    using firstBlock k y0 y1 by simp
  have 2: "blockYield findProductInJsonLd (Some widgetJson) = Some (Fin (1999 / 100), JString ''USD'')"
    using offerYield b v by simp
  have 3: "findProductInJsonLd (JArray [?site, widgetJson]) = findProductInJsonLd widgetJson"
    using inArray site w by simp
  have 4: "findProductInJsonLd (JObject [(''@graph'', JArray [widgetJson])])
     = findProductInJsonLd (JArray [widgetJson])"
    using underGraph g by simp
  from a 1 k y0 5 b(1) 2 site 3 4 show ?thesis by (intro conjI)
qed

text \<open>
  The claim as stated fails where it asks for an in-bounds price: this page's structured
  data carries the price -5, the static pipeline returns -5, and the meta-tag strategy,
  which would have given the in-bounds 25, is not consulted.
\<close>

theorem C2_unchecked_structured_price_counterexample:
  "price (extractStatic negativePricePage) = Some (Fin (- 5)) \<and>
   \<not> js_gt (Fin (- 5)) (Fin 0) \<and> \<not> validPrice (Fin (- 5)) \<and>
   spec_metaTags negativePricePage = Some (Fin 25, JString ''AUD'') \<and>
   validPrice (Fin 25)"
  using negative_static negative_meta by (simp add: validPrice_def js_gt_def)

section \<open>Availability from structured data\<close>

lemma summary_has_no_offers:
  "getProp (offerSummary j offer) ''offers'' = None"
  "getProp (directSummary j) ''offers'' = None"
  by (auto simp: offerSummary_def directSummary_def getProp_def optMember_def split: option.split)

lemma productSummary_no_offers:
  "productSummary j = Inr (Some p) \<Longrightarrow> getProp p ''offers'' = None"
  by (auto simp: productSummary_def summary_has_no_offers split: if_splits sum.splits option.splits)

lemma found_has_no_offers:
  "findProductInJsonLd j = Inr (Some p) \<Longrightarrow> getProp p ''offers'' = None"
  "findInItems items = Inr (Some p) \<Longrightarrow> getProp p ''offers'' = None"
  "findInMembers ms = Inr (Some p) \<Longrightarrow> getProp p ''offers'' = None"
proof (induction j and items and ms rule: findProductInJsonLd_findInItems_findInMembers.induct)
  case (1 jsonData)
  then show ?case
    by (subst (asm) findProductInJsonLd.simps)
       (auto split: if_splits json.splits sum.splits option.splits dest: productSummary_no_offers)
next
  case 2
  then show ?case by simp
next
  case (3 item rest)
  then show ?case by (auto split: sum.splits option.splits)
next
  case 4
  then show ?case by simp
next
  case (5 key v rest)
  then show ?case by (auto split: if_splits sum.splits option.splits)
qed

lemma static_ignores_structured_availability:
  "availabilityLoop findProductInJsonLd blocks = None"
  by (induction blocks)
     (auto split: option.split sum.split dest: found_has_no_offers(1))

text \<open>
  C4 fails on the code. In \<open>scrapeWithCheerio\<close> the availability loop asks
  \<open>findProductInJsonLd\<close> for the product, and the object that function returns has
  no \<open>offers\<close> member, so structured data never decides availability there: a page
  whose only signal is a structured-data offer marked \<open>OutOfStock\<close> is classified
  as available. The page script of \<open>scrapeWithPuppeteer\<close>, which searches with
  \<open>findProductInBrowser\<close>, classifies the same page as out of stock.
\<close>

theorem C4_static_ignores_structured_availability:
  "availabilityLoop findProductInJsonLd (jsonLdBlocks outOfStockPage) = None \<and>
   isAvailable (extractStatic outOfStockPage) = True \<and>
   isAvailable (extractRendered outOfStockPage) = False"
  using static_ignores_structured_availability outOfStock_static outOfStock_rendered
  by (intro conjI)

section \<open>The scraping orchestrator\<close>

lemma scrapeWithPuppeteer_error: "scrapeWithPuppeteer env u c = Inr r \<Longrightarrow> error r = None"
  by (auto simp: scrapeWithPuppeteer_def extractRendered_def split: sum.splits)

lemma scrapeWithCheerio_error: "scrapeWithCheerio env u c = Inr r \<Longrightarrow> error r = None"
  by (auto simp: scrapeWithCheerio_def extractStatic_def split: sum.splits)

lemma tryMethods_two:
  "tryMethods [(Rendered, R), (Static, S)] [] =
     (if yieldsPrice R then (projr R, [Rendered])
      else if yieldsPrice S then (projr S, [Rendered, Static])
      else (noMethodWorked, [Rendered, Static]))"
  by (cases R; cases S) (simp_all add: yieldsPrice_def)

text \<open>
  C5: for a URL that \<open>parseURL\<close> accepts, \<open>scrapePrice\<close> runs the rendered fetch
  first and returns its result when that has a price; otherwise, whether the rendered
  fetch threw or found no price, it runs the static fetch and returns its result when
  that has a price; otherwise it returns the result with a null price and the error
  \<open>Unable to extract price with any method\<close>, and it returns that result only then.
\<close>

theorem C5_scrapePrice_fallback:
  assumes "parseURL env pageUrl = Inr parsed"
  shows
    "(\<forall>r. scrapeWithPuppeteer env (cleanUrl parsed) sel = Inr r \<and> price r \<noteq> None \<longrightarrow>
        scrapePrice env pageUrl sel = Inr (r, [Rendered])) \<and>
     (\<forall>r. \<not> yieldsPrice (scrapeWithPuppeteer env (cleanUrl parsed) sel) \<and>
          scrapeWithCheerio env (cleanUrl parsed) sel = Inr r \<and> price r \<noteq> None \<longrightarrow>
        scrapePrice env pageUrl sel = Inr (r, [Rendered, Static])) \<and>
     (\<not> yieldsPrice (scrapeWithPuppeteer env (cleanUrl parsed) sel) \<and>
      \<not> yieldsPrice (scrapeWithCheerio env (cleanUrl parsed) sel) \<longrightarrow>
        scrapePrice env pageUrl sel = Inr (noMethodWorked, [Rendered, Static])) \<and>
     ((\<exists>result tried. scrapePrice env pageUrl sel = Inr (result, tried) \<and> price result = None \<and>
          error result = Some ''Unable to extract price with any method'')
        \<longleftrightarrow> \<not> yieldsPrice (scrapeWithPuppeteer env (cleanUrl parsed) sel) \<and>
            \<not> yieldsPrice (scrapeWithCheerio env (cleanUrl parsed) sel))"
proof -
  let ?R = "scrapeWithPuppeteer env (cleanUrl parsed) sel"
  let ?S = "scrapeWithCheerio env (cleanUrl parsed) sel"
  have sp: "scrapePrice env pageUrl sel = Inr (tryMethods [(Rendered, ?R), (Static, ?S)] [])"
    using assms by (simp add: scrapePrice_def)
  have a: "scrapePrice env pageUrl sel = Inr (r, [Rendered])"
    if "?R = Inr r" "price r \<noteq> None" for r
    unfolding sp tryMethods_two using that by (simp add: yieldsPrice_def)
  have b: "scrapePrice env pageUrl sel = Inr (r, [Rendered, Static])"
    if "\<not> yieldsPrice ?R" "?S = Inr r" "price r \<noteq> None" for r
  proof -
    have "yieldsPrice ?S" using that by (simp add: yieldsPrice_def)
    then show ?thesis unfolding sp tryMethods_two using that by simp
  qed
  have c: "scrapePrice env pageUrl sel = Inr (noMethodWorked, [Rendered, Static])"
    if "\<not> yieldsPrice ?R" "\<not> yieldsPrice ?S"
    unfolding sp tryMethods_two using that by simp
  have d: "(\<exists>result tried. scrapePrice env pageUrl sel = Inr (result, tried) \<and> price result = None \<and>
          error result = Some ''Unable to extract price with any method'')
        \<longleftrightarrow> \<not> yieldsPrice ?R \<and> \<not> yieldsPrice ?S"
  proof (cases "yieldsPrice ?R")
    case True
    then obtain r where r: "?R = Inr r" "price r \<noteq> None"
      by (auto simp: yieldsPrice_def split: sum.splits)
    show ?thesis using True a [OF r] r by auto
  next
    case False
    show ?thesis
    proof (cases "yieldsPrice ?S")
      case True
      then obtain r where r: "?S = Inr r" "price r \<noteq> None"
        by (auto simp: yieldsPrice_def split: sum.splits)
      show ?thesis using True b [OF False r] r by auto
    next
      case nS: False
      show ?thesis using False nS c by (auto simp: noMethodWorked_def)
    qed
  qed
  show ?thesis using a b c d by blast
qed

theorem C5_scrapePrice_fallback_witness:
  "parseURL staticOnly ''https://shop.example/widget''
     = Inr \<lparr>cleanUrl = ''https://shop.example/widget'', domain = ''shop.example''\<rparr> \<and>
   parseURL offline ''https://shop.example/widget''
     = Inr \<lparr>cleanUrl = ''https://shop.example/widget'', domain = ''shop.example''\<rparr> \<and>
   scrapePrice staticOnly ''https://shop.example/widget'' None
     = Inr (extractStatic graphPage, [Rendered, Static]) \<and>
   scrapePrice offline ''https://shop.example/widget'' None
     = Inr (noMethodWorked, [Rendered, Static])"
proof -
  let ?u = "''https://shop.example/widget''"
  let ?parsed = "\<lparr>cleanUrl = ?u, domain = ''shop.example''\<rparr>"
  have p1: "parseURL staticOnly ?u = Inr ?parsed" by (simp add: staticOnly_def)
  have p2: "parseURL offline ?u = Inr ?parsed" by (simp add: offline_def)
  have r1: "\<not> yieldsPrice (scrapeWithPuppeteer staticOnly (cleanUrl ?parsed) None)"
    by (simp add: yieldsPrice_def scrapeWithPuppeteer_def staticOnly_def)
  have s1: "scrapeWithCheerio staticOnly (cleanUrl ?parsed) None = Inr (extractStatic graphPage)"
    by (simp add: scrapeWithCheerio_def staticOnly_def)
  have pr: "price (extractStatic graphPage) \<noteq> None" by (simp add: graphPage_static)
  have r2: "\<not> yieldsPrice (scrapeWithPuppeteer offline (cleanUrl ?parsed) None)"
    by (simp add: yieldsPrice_def scrapeWithPuppeteer_def offline_def)
  have s2: "\<not> yieldsPrice (scrapeWithCheerio offline (cleanUrl ?parsed) None)"
    by (simp add: yieldsPrice_def scrapeWithCheerio_def offline_def)
  have a: "scrapePrice staticOnly ?u None = Inr (extractStatic graphPage, [Rendered, Static])"
    using C5_scrapePrice_fallback [OF p1, of None] r1 s1 pr by blast
  have b: "scrapePrice offline ?u None = Inr (noMethodWorked, [Rendered, Static])"
    using C5_scrapePrice_fallback [OF p2, of None] r2 s2 by blast
  from p1 p2 a b show ?thesis by (intro conjI)
qed

end
